theory Spec2Isabelle
  imports Complex_Main "HOL-Library.Sublist"
begin

section \<open>Python strings\<close>

text \<open>
  A Python \<open>str\<close> is a sequence of Unicode code points; \<open>len\<close> and slicing count code
  points. A string is modelled as the list of its code points. The literals of the source
  are all ASCII, so \<open>py\<close> maps each character of an Isabelle literal to its code point.
\<close>

type_synonym pystr = "nat list"

definition py :: "string \<Rightarrow> pystr" where
  "py s = map of_char s"

text \<open>
  \<open>str.isspace\<close> on one code point: the characters that \<open>str.split()\<close> and
  \<open>str.strip()\<close> (both without argument) treat as whitespace.
\<close>

definition isspace :: "nat \<Rightarrow> bool" where
  "isspace c \<longleftrightarrow>
     (9 \<le> c \<and> c \<le> 13) \<or> (28 \<le> c \<and> c \<le> 32) \<or> c = 133 \<or> c = 160 \<or> c = 5760 \<or>
     (8192 \<le> c \<and> c \<le> 8202) \<or> c = 8232 \<or> c = 8233 \<or> c = 8239 \<or> c = 8287 \<or> c = 12288"

text \<open>
  \<open>s.split()\<close>: scan left to right, \<open>w\<close> is the word being collected; whitespace ends
  the word (if there is one) and is dropped.
\<close>

fun split_scan :: "pystr \<Rightarrow> pystr \<Rightarrow> pystr list" where
  "split_scan w [] = (if w = [] then [] else [w])"
| "split_scan w (c # cs) =
     (if isspace c then (if w = [] then split_scan [] cs else w # split_scan [] cs)
      else split_scan (w @ [c]) cs)"

definition str_split :: "pystr \<Rightarrow> pystr list" where
  "str_split s = split_scan [] s"

text \<open>\<open>sep.join(xs)\<close>\<close>

fun str_join :: "pystr \<Rightarrow> pystr list \<Rightarrow> pystr" where
  "str_join sep [] = []"
| "str_join sep [x] = x"
| "str_join sep (x # y # ys) = x @ sep @ str_join sep (y # ys)"

text \<open>\<open>s.strip()\<close>\<close>

definition str_strip :: "pystr \<Rightarrow> pystr" where
  "str_strip s = rev (dropWhile isspace (rev (dropWhile isspace s)))"

text \<open>
  \<open>s.replace(old, new)\<close>: the non-overlapping occurrences of \<open>old\<close>, found left to
  right, are replaced. With an empty \<open>old\<close> Python puts \<open>new\<close> before every character and
  at the end.
\<close>

function str_replace :: "pystr \<Rightarrow> pystr \<Rightarrow> pystr \<Rightarrow> pystr" where
  "str_replace old new [] = (if old = [] then new else [])"
| "str_replace old new (c # cs) =
     (if old = [] then new @ c # str_replace old new cs
      else if prefix old (c # cs) then new @ str_replace old new (drop (length old) (c # cs))
      else c # str_replace old new cs)"
  by pat_completeness auto
termination
  by (relation "measure (\<lambda>(old, new, s). length s)") auto

text \<open>The truth value of an optional string: \<open>None\<close> and \<open>""\<close> are both false.\<close>

fun truthy :: "pystr option \<Rightarrow> bool" where
  "truthy None = False"
| "truthy (Some s) = (s \<noteq> [])"

section \<open>Exceptions, events and the environment\<close>

text \<open>
  An exception is its class and its message. The classes are the ones the program meets:
  those of the \<open>openai\<close> package (version 1, the one with the \<open>OpenAI\<close> client that
  \<open>chatbot.py\<close> imports), \<open>ValueError\<close>, and \<open>OtherException\<close> for any other
  subclass of \<open>Exception\<close>. In the package \<open>APIError\<close> is the base class of all the
  errors of an API call: \<open>RateLimitError\<close> (status 429), \<open>InternalServerError\<close>
  (status 500 and above) and \<open>AuthenticationError\<close> (status 401) are status errors,
  \<open>APIConnectionError\<close> is a network failure, \<open>APIResponseValidationError\<close> a
  response that cannot be parsed. The constructor \<open>APIError\<close> stands for an instance of
  the base class itself or of one of its remaining subclasses.
\<close>

datatype exc_class =
    RateLimitError | InternalServerError | AuthenticationError | APIConnectionError
  | APIResponseValidationError | APIError | ValueError | OtherException

text \<open>\<open>isinstance(e, APIError)\<close>, what the clause \<open>except APIError\<close> tests.\<close>

fun isinstance_APIError :: "exc_class \<Rightarrow> bool" where
  "isinstance_APIError ValueError = False"
| "isinstance_APIError OtherException = False"
| "isinstance_APIError c = True"

datatype py_exception = PyExc (exc_class: exc_class) (exc_msg: pystr)

datatype level = INFO | WARNING | ERROR

text \<open>
  One constructor per \<open>logging\<close> call of the source, with the values its f-string
  interpolates.
\<close>

datatype log_msg =
    OpeningPDF pystr                     \<comment> \<open>Opening PDF: {pdf_path}\<close>
  | ExtractingPages nat                  \<comment> \<open>Extracting text from {len(doc)} pages...\<close>
  | ExtractedChars nat                   \<comment> \<open>Successfully extracted {len(text)} characters.\<close>
  | ErrorProcessingPDF pystr py_exception \<comment> \<open>Error processing PDF {pdf_path}: {e}\<close>
  | ChatbotInitialized pystr             \<comment> \<open>Chatbot initialized with model: {self.model}\<close>
  | CallingLLM int int                   \<comment> \<open>Calling LLM (Attempt {attempt + 1}/{max_retries})...\<close>
  | LLMCallSuccessful                    \<comment> \<open>LLM call successful.\<close>
  | LLMEmptyMessage                      \<comment> \<open>LLM returned an empty message.\<close>
  | LLMStructureUnexpected               \<comment> \<open>LLM response structure unexpected or empty.\<close>
  | RateLimitExceeded int int int        \<comment> \<open>Rate limit exceeded. Retrying in {delay}s... (Attempt ...)\<close>
  | APIErrorOccurred py_exception int int int \<comment> \<open>API error occurred: {e}. Retrying in {delay}s... (Attempt ...)\<close>
  | UnexpectedLLMError py_exception      \<comment> \<open>An unexpected error occurred during LLM call: {e}\<close>
  | LLMFailedAfterRetries                \<comment> \<open>LLM call failed after multiple retries.\<close>
  | ExecutingTask pystr                  \<comment> \<open>Executing task with role: {role_prompt[:100]}...\<close>
  | StartingDigestion pystr              \<comment> \<open>--- Starting Research Paper Digestion for: {pdf_path} ---\<close>
  | Step1Extracting                      \<comment> \<open>Step 1: Extracting text from PDF...\<close>
  | FailedToExtract                      \<comment> \<open>Failed to extract text. Aborting.\<close>
  | TextExtracted nat                    \<comment> \<open>Text extracted ({len(paper_text)} characters).\<close>
  | TextIsLong nat                       \<comment> \<open>Extracted text is long ({len(paper_text)} chars). ...\<close>
  | TextIsVeryShort nat                  \<comment> \<open>Extracted text is very short ({len(paper_text)} chars). ...\<close>
  | FailedToInitialize py_exception      \<comment> \<open>Failed to initialize chatbots: {e}. Ensure API key is set in .env\<close>
  | UnexpectedInitError py_exception     \<comment> \<open>Unexpected error initializing chatbots: {e}\<close>
  | Step2Extractor                       \<comment> \<open>--- Step 2: Extractor Bot Processing ---\<close>
  | ExtractorFailed                      \<comment> \<open>Extractor Bot failed to produce an output. Aborting.\<close>
  | Step3Synthesizer                     \<comment> \<open>--- Step 3: Synthesizer/Critic Bot Processing ---\<close>
  | SynthesizerFailed                    \<comment> \<open>Synthesizer Bot failed to produce an output.\<close>
  | PipelineCompleted                    \<comment> \<open>--- Digestion Pipeline Completed ---\<close>

text \<open>
  The arguments of \<open>client.chat.completions.create\<close>: the model, the contents of the
  system and of the user message, and the temperature (passed through unchanged).
\<close>

record request =
  req_model :: pystr
  system_content :: pystr
  user_content :: pystr
  req_temperature :: real

text \<open>
  What the program does to the outside, in order: log records, API calls, sleeps and lines
  printed on standard output.
\<close>

datatype event =
    Log level log_msg
  | ApiCall request
  | Sleep int
  | Print pystr

type_synonym trace = "event list"

fun is_ApiCall :: "event \<Rightarrow> bool" where
  "is_ApiCall (ApiCall r) = True"
| "is_ApiCall e = False"

fun is_Log :: "event \<Rightarrow> bool" where
  "is_Log (Log l m) = True"
| "is_Log e = False"

definition api_calls :: "trace \<Rightarrow> nat" where
  "api_calls tr = length (filter is_ApiCall tr)"

definition without_logs :: "trace \<Rightarrow> trace" where
  "without_logs tr = filter (\<lambda>e. \<not> is_Log e) tr"

text \<open>
  A chat completion response: \<open>response.choices\<close> is a list, \<open>choices[0].message\<close> may
  be \<open>None\<close>, and \<open>message.content\<close> may be \<open>None\<close>.
\<close>

record message =
  content :: "pystr option"

record choice =
  message :: "message option"

record response =
  choices :: "choice list"

datatype api_outcome = Returns response | Raises py_exception

text \<open>
  A PDF document as PyMuPDF shows it: for each page, \<open>load_page\<close> followed by
  \<open>get_text\<close> gives the page's text or raises; \<open>close\<close> may raise.
\<close>

record document =
  pages :: "(py_exception + pystr) list"
  close_raises :: "py_exception option"

text \<open>
  The outside world of one run: what \<open>fitz.open\<close> gives for a path, the value of the
  environment variable \<open>OPENAI_API_KEY\<close>, whether the \<open>OpenAI\<close> constructor raises for
  a key, and the outcome of the n-th API call of the run (counted from 0) for a request.
\<close>

record env =
  fitz_open :: "pystr \<Rightarrow> py_exception + document"
  getenv_api_key :: "pystr option"
  openai_client :: "pystr \<Rightarrow> py_exception option"
  create :: "nat \<Rightarrow> request \<Rightarrow> api_outcome"

section \<open>chatbot.py\<close>

record chatbot =
  client :: pystr
  model :: pystr
  temperature :: real

text \<open>\<open>Chatbot.__init__\<close>\<close>

definition chatbot_init :: "env \<Rightarrow> pystr \<Rightarrow> real \<Rightarrow> trace \<Rightarrow> (py_exception + chatbot) \<times> trace" where
  "chatbot_init e m t tr =
     (if \<not> truthy (getenv_api_key e)
      then (Inl (PyExc ValueError (py ''OPENAI_API_KEY environment variable not set.'')), tr)
      else let key = the (getenv_api_key e) in
        (case openai_client e key of
           Some ex \<Rightarrow> (Inl ex, tr)
         | None \<Rightarrow>
             (Inr \<lparr>client = key, model = m, temperature = t\<rparr>,
              tr @ [Log INFO (ChatbotInitialized m)])))"

text \<open>
  The \<open>while\<close> loop of \<open>Chatbot._call_llm\<close>, from the value \<open>attempt\<close> on. The result
  is \<open>Inr\<close> of the returned optional string, or \<open>Inl\<close> of an exception that leaves the
  method: \<open>time.sleep\<close> raises \<open>ValueError\<close> for a negative delay, and it is called inside
  an \<open>except\<close> clause, so no other clause catches it.
\<close>

definition llm_request :: "chatbot \<Rightarrow> pystr \<Rightarrow> pystr \<Rightarrow> request" where
  "llm_request self system_prompt user_prompt =
     \<lparr>req_model = model self, system_content = system_prompt, user_content = user_prompt,
      req_temperature = temperature self\<rparr>"

function call_llm_loop ::
  "env \<Rightarrow> chatbot \<Rightarrow> pystr \<Rightarrow> pystr \<Rightarrow> int \<Rightarrow> int \<Rightarrow> int \<Rightarrow> trace \<Rightarrow> (py_exception + pystr option) \<times> trace"
where
  "call_llm_loop e self system_prompt user_prompt max_retries delay attempt tr =
     (if attempt < max_retries then
        let req = llm_request self system_prompt user_prompt;
            tr1 = tr @ [Log INFO (CallingLLM (attempt + 1) max_retries), ApiCall req]
        in (case create e (api_calls tr) req of
              Returns resp \<Rightarrow>
                (case choices resp of
                   [] \<Rightarrow> (Inr None, tr1 @ [Log WARNING LLMStructureUnexpected])
                 | ch # _ \<Rightarrow>
                     (case message ch of
                        None \<Rightarrow> (Inr None, tr1 @ [Log WARNING LLMStructureUnexpected])
                      | Some msg \<Rightarrow>
                          if truthy (content msg)
                          then (Inr (Some (str_strip (the (content msg)))),
                                tr1 @ [Log INFO LLMCallSuccessful])
                          else (Inr None, tr1 @ [Log WARNING LLMEmptyMessage])))
            | Raises ex \<Rightarrow>
                if exc_class ex = RateLimitError then
                  let tr2 = tr1 @ [Log WARNING (RateLimitExceeded delay (attempt + 1) max_retries)]
                  in if delay < 0
                     then (Inl (PyExc ValueError (py ''sleep length must be non-negative'')), tr2)
                     else call_llm_loop e self system_prompt user_prompt max_retries delay
                            (attempt + 1) (tr2 @ [Sleep delay])
                else if isinstance_APIError (exc_class ex) then
                  let tr2 = tr1 @ [Log WARNING (APIErrorOccurred ex delay (attempt + 1) max_retries)]
                  in if delay < 0
                     then (Inl (PyExc ValueError (py ''sleep length must be non-negative'')), tr2)
                     else call_llm_loop e self system_prompt user_prompt max_retries delay
                            (attempt + 1) (tr2 @ [Sleep delay])
                else (Inr None, tr1 @ [Log ERROR (UnexpectedLLMError ex)]))
      else (Inr None, tr @ [Log ERROR LLMFailedAfterRetries]))"
  by pat_completeness auto
termination
  by (relation "measure (\<lambda>(e, self, sp, up, max_retries, delay, attempt, tr). nat (max_retries - attempt))") auto

declare call_llm_loop.simps [simp del]

text \<open>\<open>Chatbot._call_llm\<close>: the loop starts with \<open>attempt = 0\<close>.\<close>

definition call_llm ::
  "env \<Rightarrow> chatbot \<Rightarrow> pystr \<Rightarrow> pystr \<Rightarrow> int \<Rightarrow> int \<Rightarrow> trace \<Rightarrow> (py_exception + pystr option) \<times> trace"
where
  "call_llm e self system_prompt user_prompt max_retries delay tr =
     call_llm_loop e self system_prompt user_prompt max_retries delay 0 tr"

text \<open>\<open>Chatbot.execute_task\<close>: the defaults \<open>max_retries = 3\<close>, \<open>delay = 5\<close> apply.\<close>

definition execute_task ::
  "env \<Rightarrow> chatbot \<Rightarrow> pystr \<Rightarrow> pystr \<Rightarrow> trace \<Rightarrow> (py_exception + pystr option) \<times> trace"
where
  "execute_task e self role_prompt task_prompt tr =
     call_llm e self role_prompt task_prompt 3 5
       (tr @ [Log INFO (ExecutingTask (take 100 role_prompt))])"

section \<open>pdf\_processor.py\<close>

text \<open>
  The \<open>for\<close> loop of \<open>extract_text_from_pdf\<close>: the pages in order, \<open>text\<close> the text
  collected so far; the first page that raises ends the loop with its exception.
\<close>

fun read_pages :: "(py_exception + pystr) list \<Rightarrow> pystr \<Rightarrow> py_exception + pystr" where
  "read_pages [] text = Inr text"
| "read_pages (p # ps) text =
     (case p of Inl ex \<Rightarrow> Inl ex | Inr t \<Rightarrow> read_pages ps (text @ t))"

text \<open>\<open>' '.join(text.split())\<close>\<close>

definition normalize_whitespace :: "pystr \<Rightarrow> pystr" where
  "normalize_whitespace text = str_join [32] (str_split text)"

text \<open>
  \<open>extract_text_from_pdf\<close>: every exception raised in the \<open>try\<close> block is an
  \<open>Exception\<close> and is turned into \<open>None\<close> by the \<open>except\<close> clause.
\<close>

definition extract_text_from_pdf :: "env \<Rightarrow> pystr \<Rightarrow> trace \<Rightarrow> pystr option \<times> trace" where
  "extract_text_from_pdf e pdf_path tr =
     (let tr1 = tr @ [Log INFO (OpeningPDF pdf_path)] in
      case fitz_open e pdf_path of
        Inl ex \<Rightarrow> (None, tr1 @ [Log ERROR (ErrorProcessingPDF pdf_path ex)])
      | Inr doc \<Rightarrow>
          let tr2 = tr1 @ [Log INFO (ExtractingPages (length (pages doc)))] in
          (case read_pages (pages doc) [] of
             Inl ex \<Rightarrow> (None, tr2 @ [Log ERROR (ErrorProcessingPDF pdf_path ex)])
           | Inr text \<Rightarrow>
               (case close_raises doc of
                  Some ex \<Rightarrow> (None, tr2 @ [Log ERROR (ErrorProcessingPDF pdf_path ex)])
                | None \<Rightarrow>
                    (Some (normalize_whitespace text),
                     tr2 @ [Log INFO (ExtractedChars (length text))]))))"

section \<open>main\_digester.py\<close>

definition LLM_MODEL :: pystr where
  "LLM_MODEL = py ''gpt-3.5-turbo''"

definition MAX_TEXT_LENGTH_WARN :: nat where
  "MAX_TEXT_LENGTH_WARN = 50000"

definition extractor_role :: pystr where
  "extractor_role = py
''You are an AI assistant specialized in extracting key structured information from academic research papers. Focus on accuracy and conciseness.''"

definition synthesizer_role :: pystr where
  "synthesizer_role = py
''You are an AI assistant skilled at critically evaluating and synthesizing research paper summaries. Your goal is to produce a final, balanced digest (around 150-250 words) that incorporates the key findings and offers a brief critical perspective.''"

text \<open>
  The two prompts are f-strings: \<open>{paper_text[:8000]}\<close> and \<open>{initial_extraction}\<close> are
  evaluated when the string is built. Each is the fixed text before, between and after
  the interpolated values.
\<close>

definition extraction_prompt_head :: pystr where
  "extraction_prompt_head = py
''\<newline>    Carefully read the following research paper text. Extract the following sections clearly and concisely:\<newline>    1.  **Core Problem:** What specific problem or question does the paper address?\<newline>    2.  **Proposed Method/Solution:** Briefly describe the key technique, model, or approach proposed.\<newline>    3.  **Key Results:** What were the main quantitative or qualitative findings? Mention key metrics if possible.\<newline>    4.  **Main Conclusion:** What is the primary takeaway or claim of the paper?\<newline>    5.  **Mentioned Limitations:** List any limitations, weaknesses, or future work mentioned by the authors.\<newline>\<newline>    Research Paper Text:\<newline>    ---\<newline>    ''"

definition extraction_prompt_tail :: pystr where
  "extraction_prompt_tail = py
''\<newline>    ---\<newline>    [Note: Only the first 8000 characters of the paper text are provided above due to potential length constraints. Base your extraction on this initial part if the full text is too long for a single prompt in a real scenario, or adjust slicing as needed.]\<newline>\<newline>    Provide the output clearly structured under the headings above.\<newline>    ''"

definition synthesis_prompt_head :: pystr where
  "synthesis_prompt_head = py
''\<newline>    You have been provided with an initial extraction from a research paper. Review this extraction in the context of the full paper text (provided again below for reference).\<newline>\<newline>    Your Tasks:\<newline>    1.  **Synthesize:** Combine the extracted points into a coherent narrative digest summarizing the paper's core contribution.\<newline>    2.  **Critique:** Briefly assess the significance of the findings. Are the limitations acknowledged appropriately? Does the method seem sound based on the description? (Be objective).\<newline>    3.  **Format:** Produce a single block of text representing the final digest.\<newline>\<newline>    Initial Extraction:\<newline>    ---\<newline>    ''"

definition synthesis_prompt_middle :: pystr where
  "synthesis_prompt_middle = py
''\<newline>    ---\<newline>\<newline>    Full Paper Text (for context - may be truncated):\<newline>    ---\<newline>    ''"

definition synthesis_prompt_tail :: pystr where
  "synthesis_prompt_tail = py
''\<newline>    ---\<newline>    [Note: Full paper text context provided again, potentially truncated.]\<newline>\<newline>    Generate the final synthesized and critiqued digest.\<newline>    ''"

definition extraction_prompt :: "pystr \<Rightarrow> pystr" where
  "extraction_prompt paper_text =
     extraction_prompt_head @ take 8000 paper_text @ extraction_prompt_tail"

definition synthesis_prompt :: "pystr \<Rightarrow> pystr \<Rightarrow> pystr" where
  "synthesis_prompt initial_extraction paper_text =
     synthesis_prompt_head @ initial_extraction @ synthesis_prompt_middle @
     take 8000 paper_text @ synthesis_prompt_tail"

text \<open>The first argument of both \<open>.replace\<close> calls.\<close>

definition placeholder :: pystr where
  "placeholder = py ''{paper_text[:8000]}''"

text \<open>The task prompts passed to \<open>execute_task\<close>.\<close>

definition extraction_task_prompt :: "pystr \<Rightarrow> pystr" where
  "extraction_task_prompt paper_text =
     str_replace placeholder paper_text (extraction_prompt paper_text)"

definition synthesis_task_prompt :: "pystr \<Rightarrow> pystr \<Rightarrow> pystr" where
  "synthesis_task_prompt initial_extraction paper_text =
     str_replace placeholder paper_text (synthesis_prompt initial_extraction paper_text)"

text \<open>The \<open>try\<close> block of step 2: the two constructor calls.\<close>

definition init_chatbots :: "env \<Rightarrow> trace \<Rightarrow> (py_exception + chatbot \<times> chatbot) \<times> trace" where
  "init_chatbots e tr =
     (case chatbot_init e LLM_MODEL (3 / 10) tr of
        (Inl ex, tr1) \<Rightarrow> (Inl ex, tr1)
      | (Inr extractor_bot, tr1) \<Rightarrow>
          (case chatbot_init e LLM_MODEL (6 / 10) tr1 of
             (Inl ex, tr2) \<Rightarrow> (Inl ex, tr2)
           | (Inr synthesizer_bot, tr2) \<Rightarrow> (Inr (extractor_bot, synthesizer_bot), tr2)))"

text \<open>
  The length checks after the extraction: one log line, and a warning for a long or a
  short text.
\<close>

definition length_check :: "pystr \<Rightarrow> trace" where
  "length_check paper_text =
     (let n = length paper_text in
      [Log INFO (TextExtracted n)] @
      (if n > MAX_TEXT_LENGTH_WARN then [Log WARNING (TextIsLong n)]
       else if n < 500 then [Log WARNING (TextIsVeryShort n)]
       else []))"

text \<open>
  \<open>run_digestion_pipeline\<close> returns \<open>None\<close> at every \<open>return\<close>; the first component
  of the result is \<open>None\<close> when it returned and \<open>Some ex\<close> when the exception \<open>ex\<close> left
  it. The second component is everything it did. The function is written as its four
  numbered steps, each one the rest of the function's body from its comment on.
\<close>

text \<open>\<open># 4. Synthesizer/Critic Bot Task\<close>\<close>

definition step4_synthesizer_bot ::
  "env \<Rightarrow> chatbot \<Rightarrow> pystr \<Rightarrow> pystr \<Rightarrow> trace \<Rightarrow> py_exception option \<times> trace"
where
  "step4_synthesizer_bot e synthesizer_bot paper_text initial_extraction tr =
     (case execute_task e synthesizer_bot synthesizer_role
             (synthesis_task_prompt initial_extraction paper_text)
             (tr @ [Log INFO Step3Synthesizer]) of
        (Inl ex, tr') \<Rightarrow> (Some ex, tr')
      | (Inr final_digest, tr') \<Rightarrow>
          if \<not> truthy final_digest
          then (None, tr' @ [Log ERROR SynthesizerFailed,
                             Print (py ''\<newline>--- Final Digest: FAILED ---'')])
          else (None, tr' @ [Print (py ''\<newline>--- Final Synthesized Digest ---''),
                             Print (the final_digest),
                             Log INFO PipelineCompleted]))"

text \<open>\<open># 3. Extractor Bot Task\<close>\<close>

definition step3_extractor_bot ::
  "env \<Rightarrow> chatbot \<Rightarrow> chatbot \<Rightarrow> pystr \<Rightarrow> trace \<Rightarrow> py_exception option \<times> trace"
where
  "step3_extractor_bot e extractor_bot synthesizer_bot paper_text tr =
     (case execute_task e extractor_bot extractor_role
             (extraction_task_prompt paper_text)
             (tr @ [Log INFO Step2Extractor]) of
        (Inl ex, tr') \<Rightarrow> (Some ex, tr')
      | (Inr initial_extraction, tr') \<Rightarrow>
          if \<not> truthy initial_extraction
          then (None, tr' @ [Log ERROR ExtractorFailed])
          else step4_synthesizer_bot e synthesizer_bot paper_text (the initial_extraction)
                 (tr' @ [Print (py ''\<newline>--- Extractor Bot Output ---''),
                         Print (the initial_extraction)]))"

text \<open>\<open># 2. Initialize Chatbots\<close>\<close>

definition step2_initialize_chatbots ::
  "env \<Rightarrow> pystr \<Rightarrow> trace \<Rightarrow> py_exception option \<times> trace"
where
  "step2_initialize_chatbots e paper_text tr =
     (case init_chatbots e tr of
        (Inl ex, tr') \<Rightarrow>
          if exc_class ex = ValueError
          then (None, tr' @ [Log ERROR (FailedToInitialize ex)])
          else (None, tr' @ [Log ERROR (UnexpectedInitError ex)])
      | (Inr (extractor_bot, synthesizer_bot), tr') \<Rightarrow>
          step3_extractor_bot e extractor_bot synthesizer_bot paper_text tr')"

text \<open>\<open># 1. Extract Text from PDF\<close>\<close>

definition run_digestion_pipeline :: "env \<Rightarrow> pystr \<Rightarrow> py_exception option \<times> trace" where
  "run_digestion_pipeline e pdf_path =
     (case extract_text_from_pdf e pdf_path
             [Log INFO (StartingDigestion pdf_path), Log INFO Step1Extracting] of
        (paper_text, tr) \<Rightarrow>
          if \<not> truthy paper_text
          then (None, tr @ [Log ERROR FailedToExtract])
          else step2_initialize_chatbots e (the paper_text) (tr @ length_check (the paper_text)))"

section \<open>Notions used in the properties\<close>

text \<open>
  The exceptions that \<open>_call_llm\<close> retries: those caught by its first two \<open>except\<close>
  clauses.
\<close>

definition retryable :: "py_exception \<Rightarrow> bool" where
  "retryable ex \<longleftrightarrow> exc_class ex = RateLimitError \<or> isinstance_APIError (exc_class ex)"

text \<open>
  A response with an empty or missing message body: no choice, a first choice without
  message, or a message whose content is \<open>None\<close> or \<open>""\<close>.
\<close>

definition empty_body :: "response \<Rightarrow> bool" where
  "empty_body resp \<longleftrightarrow>
     (case choices resp of
        [] \<Rightarrow> True
      | ch # _ \<Rightarrow>
          (case message ch of
             None \<Rightarrow> True
           | Some msg \<Rightarrow> content msg = None \<or> content msg = Some []))"

text \<open>The log messages written by \<open>Chatbot\<close>'s methods.\<close>

fun client_log :: "log_msg \<Rightarrow> bool" where
  "client_log (CallingLLM a m) = True"
| "client_log LLMCallSuccessful = True"
| "client_log LLMEmptyMessage = True"
| "client_log LLMStructureUnexpected = True"
| "client_log (RateLimitExceeded d a m) = True"
| "client_log (APIErrorOccurred ex d a m) = True"
| "client_log (UnexpectedLLMError ex) = True"
| "client_log LLMFailedAfterRetries = True"
| "client_log (ExecutingTask r) = True"
| "client_log m = False"

text \<open>
  What one call of \<open>execute_task\<close> may do: log, call the API with its own request, sleep.
\<close>

fun client_event :: "request \<Rightarrow> event \<Rightarrow> bool" where
  "client_event req (Log l m) = client_log m"
| "client_event req (ApiCall r) = (r = req)"
| "client_event req (Sleep d) = True"
| "client_event req (Print s) = False"

text \<open>A word: a non-empty string without whitespace.\<close>

definition word :: "pystr \<Rightarrow> bool" where
  "word w \<longleftrightarrow> w \<noteq> [] \<and> (\<forall>c\<in>set w. \<not> isspace c)"

text \<open>Two spaces side by side somewhere in the string.\<close>

fun adjacent_spaces :: "pystr \<Rightarrow> bool" where
  "adjacent_spaces [] = False"
| "adjacent_spaces [a] = False"
| "adjacent_spaces (a # b # cs) = ((a = 32 \<and> b = 32) \<or> adjacent_spaces (b # cs))"

text \<open>
  Opening the path, reading one of the pages or closing the document raises.
\<close>

definition reading_raises :: "env \<Rightarrow> pystr \<Rightarrow> bool" where
  "reading_raises e pdf_path \<longleftrightarrow>
     (case fitz_open e pdf_path of
        Inl ex \<Rightarrow> True
      | Inr doc \<Rightarrow> (\<exists>p\<in>set (pages doc). isl p) \<or> close_raises doc \<noteq> None)"

text \<open>
  A document without extractable text: it has no page, or its pages have no text other
  than whitespace.
\<close>

definition blank :: "document \<Rightarrow> bool" where
  "blank doc \<longleftrightarrow>
     (\<forall>p\<in>set (pages doc). case p of Inl ex \<Rightarrow> True | Inr t \<Rightarrow> \<forall>c\<in>set t. isspace c)"

text \<open>
  A request of one of the two stages for a document text: the extractor's role with the
  extraction task prompt, or the synthesizer's role with a synthesis task prompt.
\<close>

definition stage_request :: "pystr \<Rightarrow> request \<Rightarrow> bool" where
  "stage_request paper_text req \<longleftrightarrow>
     (system_content req = extractor_role \<and> user_content req = extraction_task_prompt paper_text) \<or>
     (system_content req = synthesizer_role \<and>
      (\<exists>initial_extraction. user_content req = synthesis_task_prompt initial_extraction paper_text))"

text \<open>
  What the pipeline may do after the extraction step: anything but report a failed
  extraction, and API calls only with a request of one of the two stages.
\<close>

definition later_event :: "pystr \<Rightarrow> event \<Rightarrow> bool" where
  "later_event paper_text ev \<longleftrightarrow>
     ev \<noteq> Log ERROR FailedToExtract \<and> (\<forall>r. ev = ApiCall r \<longrightarrow> stage_request paper_text r)"

subsection \<open>Test doubles\<close>

definition completion :: "pystr \<Rightarrow> api_outcome" where
  "completion c = Returns \<lparr>choices = [\<lparr>message = Some \<lparr>content = Some c\<rparr>\<rparr>]\<rparr>"

definition rate_limited :: api_outcome where
  "rate_limited = Raises (PyExc RateLimitError (py ''rate limit''))"

definition server_error :: api_outcome where
  "server_error = Raises (PyExc InternalServerError (py ''server error''))"

definition invalid_api_key :: py_exception where
  "invalid_api_key = PyExc AuthenticationError (py ''Incorrect API key provided'')"

definition connection_refused :: py_exception where
  "connection_refused = PyExc OtherException (py ''connection refused'')"

definition one_page_pdf :: "pystr \<Rightarrow> py_exception + document" where
  "one_page_pdf t = Inr \<lparr>pages = [Inr t], close_raises = None\<rparr>"

text \<open>
  An environment with the API key set, in which every path opens as the given document
  and the n-th API call has the given outcome.
\<close>

definition mock_env :: "(py_exception + document) \<Rightarrow> (nat \<Rightarrow> api_outcome) \<Rightarrow> env" where
  "mock_env doc outcomes =
     \<lparr>fitz_open = (\<lambda>p. doc), getenv_api_key = Some (py ''sk-test''),
      openai_client = (\<lambda>k. None), create = (\<lambda>n req. outcomes n)\<rparr>"

definition test_bot :: chatbot where
  "test_bot = \<lparr>client = py ''sk-test'', model = LLM_MODEL, temperature = 1 / 2\<rparr>"

definition test_request :: request where
  "test_request = llm_request test_bot (py ''role'') (py ''task'')"

definition three_page_pdf :: "py_exception + document" where
  "three_page_pdf =
     Inr \<lparr>pages = [Inr (py ''Problem X. ''), Inr (py ''Method Y. ''), Inr (py ''Result Z.'')],
          close_raises = None\<rparr>"

definition extractor_test_bot :: chatbot where
  "extractor_test_bot = \<lparr>client = py ''sk-test'', model = LLM_MODEL, temperature = 3 / 10\<rparr>"

definition synthesizer_test_bot :: chatbot where
  "synthesizer_test_bot = \<lparr>client = py ''sk-test'', model = LLM_MODEL, temperature = 6 / 10\<rparr>"

text \<open>The trace of a run on the three-page document, up to the chatbots' construction.\<close>

definition trace_to_chatbots :: trace where
  "trace_to_chatbots =
     [Log INFO (StartingDigestion (py ''paper.pdf'')), Log INFO Step1Extracting,
      Log INFO (OpeningPDF (py ''paper.pdf'')), Log INFO (ExtractingPages 3),
      Log INFO (ExtractedChars 30),
      Log INFO (TextExtracted 30), Log WARNING (TextIsVeryShort 30),
      Log INFO (ChatbotInitialized LLM_MODEL), Log INFO (ChatbotInitialized LLM_MODEL)]"

text \<open>The same, up to the first API call.\<close>

definition trace_to_first_call :: trace where
  "trace_to_first_call =
     [Log INFO (StartingDigestion (py ''paper.pdf'')), Log INFO Step1Extracting,
      Log INFO (OpeningPDF (py ''paper.pdf'')), Log INFO (ExtractingPages 3),
      Log INFO (ExtractedChars 30),
      Log INFO (TextExtracted 30), Log WARNING (TextIsVeryShort 30),
      Log INFO (ChatbotInitialized LLM_MODEL), Log INFO (ChatbotInitialized LLM_MODEL),
      Log INFO Step2Extractor,
      Log INFO (ExecutingTask (take 100 extractor_role)),
      Log INFO (CallingLLM 1 3),
      ApiCall (llm_request extractor_test_bot extractor_role
                 (extraction_task_prompt (py ''Problem X. Method Y. Result Z.'')))]"

definition extraction_reply :: pystr where
  "extraction_reply = py ''Core Problem: X''"

definition synthesis_reply :: pystr where
  "synthesis_reply = py ''A fine paper.''"

definition short_paper :: pystr where
  "short_paper = py ''Problem X. Method Y. Result Z.''"

text \<open>
  A document of 8001 characters, 8000 times \<open>a\<close> and then \<open>Z\<close>, on one page; the
  environment that opens it and answers both stages; and the two requests whose user
  prompts hold the first 8000 characters only.
\<close>

definition long_paper :: pystr where
  "long_paper = replicate 8000 97 @ [90]"

definition long_pdf_env :: env where
  "long_pdf_env =
     mock_env (one_page_pdf long_paper)
       (\<lambda>n. if n = 0 then completion extraction_reply else completion synthesis_reply)"

definition truncated_extraction_request :: request where
  "truncated_extraction_request =
     llm_request extractor_test_bot extractor_role
       (extraction_prompt_head @ replicate 8000 97 @ extraction_prompt_tail)"

definition truncated_synthesis_request :: request where
  "truncated_synthesis_request =
     llm_request synthesizer_test_bot synthesizer_role
       (synthesis_prompt_head @ extraction_reply @ synthesis_prompt_middle @
        replicate 8000 97 @ synthesis_prompt_tail)"

section \<open>The trace\<close>

lemma api_calls_append [simp]: "api_calls (tr @ evs) = api_calls tr + api_calls evs"
  by (simp add: api_calls_def)

lemma api_calls_simps [simp]:
  "api_calls [] = 0"
  "api_calls (ApiCall r # tr) = Suc (api_calls tr)"
  "api_calls (Log l m # tr) = api_calls tr"
  "api_calls (Sleep d # tr) = api_calls tr"
  "api_calls (Print s # tr) = api_calls tr"
  by (simp_all add: api_calls_def)

lemma without_logs_append [simp]:
  "without_logs (tr @ evs) = without_logs tr @ without_logs evs"
  by (simp add: without_logs_def)

lemma without_logs_simps [simp]:
  "without_logs [] = []"
  "without_logs (ApiCall r # tr) = ApiCall r # without_logs tr"
  "without_logs (Log l m # tr) = without_logs tr"
  "without_logs (Sleep d # tr) = Sleep d # without_logs tr"
  "without_logs (Print s # tr) = Print s # without_logs tr"
  by (simp_all add: without_logs_def)

section \<open>One iteration of the retry loop\<close>

lemma loop_done:
  "\<not> attempt < max_retries \<Longrightarrow>
   call_llm_loop e self sp up max_retries delay attempt tr =
     (Inr None, tr @ [Log ERROR LLMFailedAfterRetries])"
  by (subst call_llm_loop.simps) simp

lemma loop_other_exception:
  assumes "attempt < max_retries"
    and "create e (api_calls tr) (llm_request self sp up) = Raises ex"
    and "\<not> retryable ex"
  shows "call_llm_loop e self sp up max_retries delay attempt tr =
     (Inr None,
      tr @ [Log INFO (CallingLLM (attempt + 1) max_retries), ApiCall (llm_request self sp up),
            Log ERROR (UnexpectedLLMError ex)])"
  using assms by (subst call_llm_loop.simps) (simp add: retryable_def Let_def)

lemma loop_retry:
  assumes "attempt < max_retries"
    and "create e (api_calls tr) (llm_request self sp up) = Raises ex"
    and "retryable ex" and "0 \<le> delay"
  shows "call_llm_loop e self sp up max_retries delay attempt tr =
     call_llm_loop e self sp up max_retries delay (attempt + 1)
       (tr @ [Log INFO (CallingLLM (attempt + 1) max_retries), ApiCall (llm_request self sp up),
              Log WARNING (if exc_class ex = RateLimitError
                           then RateLimitExceeded delay (attempt + 1) max_retries
                           else APIErrorOccurred ex delay (attempt + 1) max_retries),
              Sleep delay])"
  using assms by (subst call_llm_loop.simps) (auto simp add: retryable_def Let_def)

lemma loop_returns:
  assumes "attempt < max_retries"
    and "create e (api_calls tr) (llm_request self sp up) = Returns resp"
  shows "call_llm_loop e self sp up max_retries delay attempt tr =
     (let tr1 = tr @ [Log INFO (CallingLLM (attempt + 1) max_retries),
                      ApiCall (llm_request self sp up)] in
      case choices resp of
        [] \<Rightarrow> (Inr None, tr1 @ [Log WARNING LLMStructureUnexpected])
      | ch # _ \<Rightarrow>
         (case message ch of
            None \<Rightarrow> (Inr None, tr1 @ [Log WARNING LLMStructureUnexpected])
          | Some msg \<Rightarrow>
              if truthy (content msg)
              then (Inr (Some (str_strip (the (content msg)))), tr1 @ [Log INFO LLMCallSuccessful])
              else (Inr None, tr1 @ [Log WARNING LLMEmptyMessage])))"
  using assms by (subst call_llm_loop.simps) (simp add: Let_def)

lemma loop_success:
  assumes "attempt < max_retries"
    and "create e (api_calls tr) (llm_request self sp up) = Returns resp"
    and "choices resp = ch # chs" and "message ch = Some msg"
    and "content msg = Some c" and "c \<noteq> []"
  shows "call_llm_loop e self sp up max_retries delay attempt tr =
     (Inr (Some (str_strip c)),
      tr @ [Log INFO (CallingLLM (attempt + 1) max_retries), ApiCall (llm_request self sp up),
            Log INFO LLMCallSuccessful])"
  using assms(3-) by (simp add: loop_returns [OF assms(1,2)])

lemma loop_empty_body:
  assumes "attempt < max_retries"
    and "create e (api_calls tr) (llm_request self sp up) = Returns resp"
    and "empty_body resp"
  shows "\<exists>m. call_llm_loop e self sp up max_retries delay attempt tr =
     (Inr None,
      tr @ [Log INFO (CallingLLM (attempt + 1) max_retries), ApiCall (llm_request self sp up),
            Log WARNING m])"
  using assms(3)
  by (auto simp add: loop_returns [OF assms(1,2)] empty_body_def split: list.splits option.splits)

text \<open>
  \<open>k\<close> retryable failures in a row take the loop from \<open>attempt\<close> to \<open>attempt + k\<close>, with
  one API call and one sleep each.
\<close>

lemma loop_k_retries:
  assumes "0 \<le> delay"
  shows "attempt + int k \<le> max_retries \<Longrightarrow>
     \<forall>i<k. \<exists>ex. create e (api_calls tr + i) (llm_request self sp up) = Raises ex \<and> retryable ex \<Longrightarrow>
     \<exists>tr'. call_llm_loop e self sp up max_retries delay attempt tr =
              call_llm_loop e self sp up max_retries delay (attempt + int k) tr' \<and>
            api_calls tr' = api_calls tr + k \<and>
            without_logs tr' = without_logs tr @
              concat (replicate k [ApiCall (llm_request self sp up), Sleep delay])"
proof (induction k arbitrary: attempt tr)
  case 0
  show ?case by (intro exI [of _ tr]) simp
next
  case (Suc k)
  from Suc.prems(2) obtain ex
    where ex: "create e (api_calls tr) (llm_request self sp up) = Raises ex" "retryable ex"
    by force
  have lt: "attempt < max_retries" using Suc.prems(1) by simp
  let ?tr1 = "tr @ [Log INFO (CallingLLM (attempt + 1) max_retries),
              ApiCall (llm_request self sp up),
              Log WARNING (if exc_class ex = RateLimitError
                           then RateLimitExceeded delay (attempt + 1) max_retries
                           else APIErrorOccurred ex delay (attempt + 1) max_retries),
              Sleep delay]"
  have step: "call_llm_loop e self sp up max_retries delay attempt tr =
        call_llm_loop e self sp up max_retries delay (attempt + 1) ?tr1"
    using loop_retry [OF lt ex assms] .
  have p1: "(attempt + 1) + int k \<le> max_retries" using Suc.prems(1) by simp
  have p2: "\<forall>i<k. \<exists>ex. create e (api_calls ?tr1 + i) (llm_request self sp up) = Raises ex
              \<and> retryable ex"
  proof (intro allI impI)
    fix i assume "i < k"
    then have "Suc i < Suc k" by simp
    with Suc.prems(2)
    have "\<exists>ex. create e (api_calls tr + Suc i) (llm_request self sp up) = Raises ex \<and> retryable ex"
      by blast
    then show "\<exists>ex. create e (api_calls ?tr1 + i) (llm_request self sp up) = Raises ex
                 \<and> retryable ex"
      by simp
  qed
  from Suc.IH [OF p1 p2] obtain tr' where tr':
    "call_llm_loop e self sp up max_retries delay (attempt + 1) ?tr1 =
       call_llm_loop e self sp up max_retries delay (attempt + 1 + int k) tr'"
    "api_calls tr' = api_calls ?tr1 + k"
    "without_logs tr' = without_logs ?tr1 @
       concat (replicate k [ApiCall (llm_request self sp up), Sleep delay])"
    by blast
  have a: "attempt + 1 + int k = attempt + int (Suc k)" by simp
  show ?case
    using step tr' unfolding a by (intro exI [of _ tr']) simp
qed

text \<open>When every call fails with a retryable exception, the loop runs until the counter stops it.\<close>

lemma call_llm_all_retryable:
  assumes "0 \<le> delay"
    and "\<forall>n\<ge>api_calls tr. \<exists>ex. create e n (llm_request self sp up) = Raises ex \<and> retryable ex"
  shows "fst (call_llm e self sp up max_retries delay tr) = Inr None \<and>
         api_calls (snd (call_llm e self sp up max_retries delay tr)) = api_calls tr + nat max_retries \<and>
         without_logs (snd (call_llm e self sp up max_retries delay tr)) =
           without_logs tr @
           concat (replicate (nat max_retries) [ApiCall (llm_request self sp up), Sleep delay])"
proof (cases "0 \<le> max_retries")
  case False
  then show ?thesis by (simp add: call_llm_def loop_done)
next
  case True
  then have le: "0 + int (nat max_retries) \<le> max_retries" by simp
  have fails: "\<forall>i<nat max_retries. \<exists>ex. create e (api_calls tr + i) (llm_request self sp up) = Raises ex
                 \<and> retryable ex"
    using assms(2) by simp
  from loop_k_retries [OF assms(1) le fails] obtain tr' where tr':
    "call_llm_loop e self sp up max_retries delay 0 tr =
       call_llm_loop e self sp up max_retries delay (0 + int (nat max_retries)) tr'"
    "api_calls tr' = api_calls tr + nat max_retries"
    "without_logs tr' = without_logs tr @
       concat (replicate (nat max_retries) [ApiCall (llm_request self sp up), Sleep delay])"
    by blast
  have stop: "\<not> 0 + int (nat max_retries) < max_retries" using True by simp
  show ?thesis
    unfolding call_llm_def tr'(1) loop_done [OF stop] using tr'(2,3) by simp
qed

section \<open>Splitting and joining\<close>

lemma isspace_simps [simp]: "isspace 32" "isspace 9" "isspace 10"
  by (simp_all add: isspace_def)

lemma split_scan_words:
  "\<forall>c\<in>set w. \<not> isspace c \<Longrightarrow> \<forall>x\<in>set (split_scan w s). word x"
proof (induction s arbitrary: w)
  case Nil
  then show ?case by (simp add: word_def)
next
  case (Cons a s)
  show ?case
    using Cons.IH [of "[]"] Cons.IH [of "w @ [a]"] Cons.prems by (auto simp: word_def)
qed

lemma str_split_words: "\<forall>x\<in>set (str_split s). word x"
  using split_scan_words [of "[]" s] by (simp add: str_split_def)

lemma split_scan_nonspace:
  "\<forall>c\<in>set x. \<not> isspace c \<Longrightarrow> split_scan w (x @ r) = split_scan (w @ x) r"
  by (induction x arbitrary: w) auto

lemma split_scan_word: "word x \<Longrightarrow> split_scan [] x = [x]"
  using split_scan_nonspace [of x "[]" "[]"] by (simp add: word_def)

lemma split_join:
  "\<forall>x\<in>set ws. word x \<Longrightarrow> split_scan [] (str_join [32] ws) = ws"
proof (induction ws rule: induct_list012 [case_names Nil One More])
  case Nil then show ?case by simp
next
  case (One x) then show ?case by (simp add: split_scan_word)
next
  case (More x y ys)
  then have x: "word x" and IH: "split_scan [] (str_join [32] (y # ys)) = y # ys" by simp_all
  have "split_scan [] (x @ [32] @ str_join [32] (y # ys)) = split_scan ([] @ x) ([32] @ str_join [32] (y # ys))"
    using x by (intro split_scan_nonspace) (simp add: word_def)
  also have "\<dots> = x # y # ys" using x IH by (simp add: word_def)
  finally show ?case by simp
qed

lemma normalize_idem: "normalize_whitespace (normalize_whitespace s) = normalize_whitespace s"
  unfolding normalize_whitespace_def str_split_def
  using split_join [OF split_scan_words [of "[]" s]] by simp

lemma join_set: "set (str_join [32] ws) \<subseteq> insert 32 (\<Union> (set ` set ws))"
  by (induction ws rule: induct_list012) auto

lemma join_space_only:
  assumes "\<forall>x\<in>set ws. word x" and "c \<in> set (str_join [32] ws)" and "isspace c"
  shows "c = 32"
  using assms join_set [of ws] by (auto simp: word_def)

lemma join_nonempty: "\<forall>x\<in>set ws. word x \<Longrightarrow> ws \<noteq> [] \<Longrightarrow> str_join [32] ws \<noteq> []"
  by (induction ws rule: induct_list012) (auto simp: word_def)

lemma join_hd: "\<forall>x\<in>set ws. word x \<Longrightarrow> ws \<noteq> [] \<Longrightarrow> hd (str_join [32] ws) = hd (hd ws)"
  by (induction ws rule: induct_list012) (auto simp: word_def)

lemma join_last: "\<forall>x\<in>set ws. word x \<Longrightarrow> ws \<noteq> [] \<Longrightarrow> last (str_join [32] ws) = last (last ws)"
  by (induction ws rule: induct_list012) (auto simp: word_def join_nonempty)

lemma adjacent_spaces_word:
  "32 \<notin> set x \<Longrightarrow> adjacent_spaces (x @ 32 # r) = adjacent_spaces (32 # r)"
proof (induction x)
  case Nil then show ?case by simp
next
  case (Cons a x)
  then show ?case by (cases x) auto
qed

lemma join_no_adjacent_spaces:
  "\<forall>x\<in>set ws. word x \<Longrightarrow> \<not> adjacent_spaces (str_join [32] ws)"
proof (induction ws rule: induct_list012 [case_names Nil One More])
  case Nil then show ?case by simp
next
  case (One x)
  then have "32 \<notin> set x" by (auto simp: word_def)
  then show ?case
  proof (induction x)
    case Nil then show ?case by simp
  next
    case (Cons a x) then show ?case by (cases x) auto
  qed
next
  case (More x y ys)
  then have x: "32 \<notin> set x" by (auto simp: word_def)
  from More have IH: "\<not> adjacent_spaces (str_join [32] (y # ys))" by simp
  from More have ne: "str_join [32] (y # ys) \<noteq> []" by (intro join_nonempty) simp_all
  from More have "hd (str_join [32] (y # ys)) = hd y" using join_hd [of "y # ys"] by simp
  moreover from More have "word y" by simp
  ultimately have hd: "hd (str_join [32] (y # ys)) \<noteq> 32" by (cases y) (auto simp: word_def)
  have "adjacent_spaces (x @ 32 # str_join [32] (y # ys)) = adjacent_spaces (32 # str_join [32] (y # ys))"
    using x by (rule adjacent_spaces_word)
  also have "\<dots> = False" using IH ne hd by (cases "str_join [32] (y # ys)") auto
  finally show ?case by simp
qed

lemma sublist_adjacent_spaces: "sublist [32, 32] t \<longleftrightarrow> adjacent_spaces t"
proof (induction t rule: adjacent_spaces.induct)
  case 1
  then show ?case by simp
next
  case (2 a)
  then show ?case by (auto simp: sublist_Cons_right)
next
  case (3 a b cs)
  then show ?case by (auto simp: sublist_Cons_right)
qed

section \<open>Reading the pages\<close>

lemma read_pages_raises:
  "(\<exists>ex. read_pages ps t = Inl ex) \<longleftrightarrow> (\<exists>p\<in>set ps. isl p)"
  by (induction ps arbitrary: t) (auto split: sum.splits)

lemma read_pages_text:
  "\<not> (\<exists>p\<in>set ps. isl p) \<Longrightarrow> read_pages ps t = Inr (t @ concat (map projr ps))"
  by (induction ps arbitrary: t) (auto split: sum.splits)

lemma split_scan_blank: "\<forall>c\<in>set s. isspace c \<Longrightarrow> split_scan [] s = []"
  by (induction s) auto

lemma extract_None_iff:
  "fst (extract_text_from_pdf e pdf_path tr) = None \<longleftrightarrow> reading_raises e pdf_path"
proof (cases "fitz_open e pdf_path")
  case (Inl ex)
  then show ?thesis by (simp add: extract_text_from_pdf_def reading_raises_def)
next
  case (Inr doc)
  show ?thesis
  proof (cases "\<exists>p\<in>set (pages doc). isl p")
    case True
    with read_pages_raises [of "pages doc" "[]"] obtain ex where "read_pages (pages doc) [] = Inl ex"
      by blast
    with Inr True show ?thesis by (simp add: extract_text_from_pdf_def reading_raises_def Let_def)
  next
    case False
    from read_pages_text [OF False, of "[]"] Inr False show ?thesis
      by (auto simp add: extract_text_from_pdf_def reading_raises_def Let_def split: option.splits)
  qed
qed

lemma extract_Some:
  assumes "fst (extract_text_from_pdf e pdf_path tr) = Some t"
  shows "\<exists>text. t = normalize_whitespace text"
  using assms
  by (auto simp add: extract_text_from_pdf_def Let_def split: sum.splits option.splits)

lemma extract_blank:
  assumes "fitz_open e pdf_path = Inr doc" and "\<not> reading_raises e pdf_path" and "blank doc"
  shows "fst (extract_text_from_pdf e pdf_path tr) = Some []"
proof -
  from assms(1,2) have ok: "\<not> (\<exists>p\<in>set (pages doc). isl p)" and cl: "close_raises doc = None"
    by (simp_all add: reading_raises_def)
  have "\<forall>c\<in>set (concat (map projr (pages doc))). isspace c"
    using assms(3) ok by (fastforce simp: blank_def split: sum.splits)
  then have "split_scan [] (concat (map projr (pages doc))) = []" by (rule split_scan_blank)
  with read_pages_text [OF ok, of "[]"] assms(1) cl show ?thesis
    by (simp add: extract_text_from_pdf_def Let_def normalize_whitespace_def str_split_def)
qed

section \<open>What each function adds to the trace\<close>

lemma loop_negative_delay:
  assumes "attempt < max_retries"
    and "create e (api_calls tr) (llm_request self sp up) = Raises ex"
    and "retryable ex" and "delay < 0"
  shows "call_llm_loop e self sp up max_retries delay attempt tr =
     (Inl (PyExc ValueError (py ''sleep length must be non-negative'')),
      tr @ [Log INFO (CallingLLM (attempt + 1) max_retries), ApiCall (llm_request self sp up),
              Log WARNING (if exc_class ex = RateLimitError
                           then RateLimitExceeded delay (attempt + 1) max_retries
                           else APIErrorOccurred ex delay (attempt + 1) max_retries)])"
  using assms by (subst call_llm_loop.simps) (auto simp add: retryable_def Let_def)

lemma loop_events:
  "\<exists>evs. snd (call_llm_loop e self sp up max_retries delay attempt tr) = tr @ evs \<and>
         (\<forall>ev\<in>set evs. client_event (llm_request self sp up) ev) \<and>
         (attempt < max_retries \<longrightarrow> ApiCall (llm_request self sp up) \<in> set evs)"
proof (induction e self sp up max_retries delay attempt tr rule: call_llm_loop.induct)
  case (1 e self sp up max_retries delay attempt tr)
  let ?req = "llm_request self sp up"
  show ?case
  proof (cases "attempt < max_retries")
    case False
    then show ?thesis by (simp add: loop_done)
  next
    case lt: True
    show ?thesis
    proof (cases "create e (api_calls tr) ?req")
      case (Returns resp)
      show ?thesis
        by (auto simp add: loop_returns [OF lt Returns] Let_def split: list.splits option.splits)
    next
      case (Raises ex)
      show ?thesis
      proof (cases "retryable ex")
        case False
        show ?thesis by (simp add: loop_other_exception [OF lt Raises False])
      next
        case r: True
        show ?thesis
        proof (cases "delay < 0")
          case True
          show ?thesis by (simp add: loop_negative_delay [OF lt Raises r True])
        next
          case nd: False
          let ?tr' = "tr @ [Log INFO (CallingLLM (attempt + 1) max_retries), ApiCall ?req,
              Log WARNING (if exc_class ex = RateLimitError
                           then RateLimitExceeded delay (attempt + 1) max_retries
                           else APIErrorOccurred ex delay (attempt + 1) max_retries),
              Sleep delay]"
          from nd have d: "0 \<le> delay" by simp
          have step: "call_llm_loop e self sp up max_retries delay attempt tr =
              call_llm_loop e self sp up max_retries delay (attempt + 1) ?tr'"
            using loop_retry [OF lt Raises r d] .
          have "\<exists>evs. snd (call_llm_loop e self sp up max_retries delay (attempt + 1) ?tr') = ?tr' @ evs \<and>
                  (\<forall>ev\<in>set evs. client_event ?req ev)"
          proof (cases "exc_class ex = RateLimitError")
            case True
            from "1.IH"(1) [OF lt refl refl Raises True refl nd] True show ?thesis by auto
          next
            case False
            with r have api: "isinstance_APIError (exc_class ex)" by (simp add: retryable_def)
            from "1.IH"(2) [OF lt refl refl Raises False api refl nd] False show ?thesis by auto
          qed
          then obtain evs where evs:
            "snd (call_llm_loop e self sp up max_retries delay (attempt + 1) ?tr') = ?tr' @ evs"
            "\<forall>ev\<in>set evs. client_event ?req ev"
            by blast
          show ?thesis
            unfolding step evs(1) using evs(2)
            by (intro exI [of _ "[Log INFO (CallingLLM (attempt + 1) max_retries), ApiCall ?req,
              Log WARNING (if exc_class ex = RateLimitError
                           then RateLimitExceeded delay (attempt + 1) max_retries
                           else APIErrorOccurred ex delay (attempt + 1) max_retries),
              Sleep delay] @ evs"]) simp
        qed
      qed
    qed
  qed
qed

lemma execute_task_events:
  "\<exists>evs. snd (execute_task e self role task tr) = tr @ evs \<and>
         (\<forall>ev\<in>set evs. client_event (llm_request self role task) ev) \<and>
         ApiCall (llm_request self role task) \<in> set evs"
proof -
  from loop_events [of e self role task 3 5 0 "tr @ [Log INFO (ExecutingTask (take 100 role))]"]
  obtain evs where
    "snd (call_llm_loop e self role task 3 5 0 (tr @ [Log INFO (ExecutingTask (take 100 role))])) =
       (tr @ [Log INFO (ExecutingTask (take 100 role))]) @ evs"
    "\<forall>ev\<in>set evs. client_event (llm_request self role task) ev"
    "ApiCall (llm_request self role task) \<in> set evs"
    by auto
  then show ?thesis
    by (intro exI [of _ "Log INFO (ExecutingTask (take 100 role)) # evs"])
       (simp add: execute_task_def call_llm_def)
qed

lemma client_event_later:
  "client_event req ev \<Longrightarrow> stage_request paper_text req \<Longrightarrow> later_event paper_text ev"
  by (cases ev) (auto simp: later_event_def)

lemma chatbot_init_events:
  "\<exists>evs. snd (chatbot_init e m t tr) = tr @ evs \<and> (\<forall>ev\<in>set evs. ev = Log INFO (ChatbotInitialized m))"
  by (auto simp: chatbot_init_def Let_def split: option.splits)

lemma init_chatbots_events:
  "\<exists>evs. snd (init_chatbots e tr) = tr @ evs \<and>
         (\<forall>ev\<in>set evs. ev = Log INFO (ChatbotInitialized LLM_MODEL))"
proof -
  obtain r1 tr1 where c1: "chatbot_init e LLM_MODEL (3 / 10) tr = (r1, tr1)" by force
  from chatbot_init_events [of e LLM_MODEL "3 / 10" tr] c1 obtain evs1 where
    evs1: "tr1 = tr @ evs1" "\<forall>ev\<in>set evs1. ev = Log INFO (ChatbotInitialized LLM_MODEL)" by auto
  obtain r2 tr2 where c2: "chatbot_init e LLM_MODEL (6 / 10) tr1 = (r2, tr2)" by force
  from chatbot_init_events [of e LLM_MODEL "6 / 10" tr1] c2 obtain evs2 where
    evs2: "tr2 = tr1 @ evs2" "\<forall>ev\<in>set evs2. ev = Log INFO (ChatbotInitialized LLM_MODEL)" by auto
  show ?thesis
  proof (cases r1)
    case (Inl ex)
    with c1 evs1 show ?thesis by (auto simp: init_chatbots_def)
  next
    case (Inr eb)
    with c1 c2 evs1 evs2 show ?thesis
      by (cases r2) (auto simp: init_chatbots_def intro!: exI [of _ "evs1 @ evs2"])
  qed
qed

lemma extract_events:
  "\<exists>evs. snd (extract_text_from_pdf e pdf_path tr) = tr @ evs \<and>
         (\<forall>ev\<in>set evs. is_Log ev \<and> ev \<noteq> Log ERROR FailedToExtract)"
  by (auto simp: extract_text_from_pdf_def Let_def split: sum.splits option.splits)

lemma step4_events:
  "\<exists>evs. snd (step4_synthesizer_bot e sb paper_text ie tr) = tr @ evs \<and>
         (\<forall>ev\<in>set evs. later_event paper_text ev) \<and>
         ApiCall (llm_request sb synthesizer_role (synthesis_task_prompt ie paper_text)) \<in> set evs"
proof -
  let ?req = "llm_request sb synthesizer_role (synthesis_task_prompt ie paper_text)"
  let ?tr = "tr @ [Log INFO Step3Synthesizer]"
  obtain r tr' where x: "execute_task e sb synthesizer_role (synthesis_task_prompt ie paper_text) ?tr = (r, tr')"
    by force
  from execute_task_events [of e sb synthesizer_role "synthesis_task_prompt ie paper_text" ?tr] x
  obtain evs where evs: "tr' = ?tr @ evs" "\<forall>ev\<in>set evs. client_event ?req ev" "ApiCall ?req \<in> set evs"
    by auto
  have "stage_request paper_text ?req" by (auto simp: stage_request_def llm_request_def)
  with evs(2) have later: "\<forall>ev\<in>set evs. later_event paper_text ev"
    using client_event_later by blast
  show ?thesis
  proof (cases r)
    case (Inl ex)
    with x evs later show ?thesis
      by (intro exI [of _ "Log INFO Step3Synthesizer # evs"])
         (auto simp add: step4_synthesizer_bot_def later_event_def)
  next
    case (Inr d)
    show ?thesis
    proof (cases "truthy d")
      case True
      with Inr x evs later show ?thesis
        by (intro exI [of _ "Log INFO Step3Synthesizer # evs @
              [Print (py ''\<newline>--- Final Synthesized Digest ---''), Print (the d), Log INFO PipelineCompleted]"])
           (auto simp add: step4_synthesizer_bot_def later_event_def)
    next
      case False
      with Inr x evs later show ?thesis
        by (intro exI [of _ "Log INFO Step3Synthesizer # evs @
              [Log ERROR SynthesizerFailed, Print (py ''\<newline>--- Final Digest: FAILED ---'')]"])
           (auto simp add: step4_synthesizer_bot_def later_event_def)
    qed
  qed
qed

lemma step3_events:
  "\<exists>evs. snd (step3_extractor_bot e eb sb paper_text tr) = tr @ evs \<and>
         (\<forall>ev\<in>set evs. later_event paper_text ev) \<and>
         ApiCall (llm_request eb extractor_role (extraction_task_prompt paper_text)) \<in> set evs"
proof -
  let ?req = "llm_request eb extractor_role (extraction_task_prompt paper_text)"
  let ?tr = "tr @ [Log INFO Step2Extractor]"
  obtain r tr' where x: "execute_task e eb extractor_role (extraction_task_prompt paper_text) ?tr = (r, tr')"
    by force
  from execute_task_events [of e eb extractor_role "extraction_task_prompt paper_text" ?tr] x
  obtain evs where evs: "tr' = ?tr @ evs" "\<forall>ev\<in>set evs. client_event ?req ev" "ApiCall ?req \<in> set evs"
    by auto
  have "stage_request paper_text ?req" by (auto simp: stage_request_def llm_request_def)
  with evs(2) have later: "\<forall>ev\<in>set evs. later_event paper_text ev"
    using client_event_later by blast
  show ?thesis
  proof (cases r)
    case (Inl ex)
    with x evs later show ?thesis
      by (intro exI [of _ "Log INFO Step2Extractor # evs"])
         (auto simp add: step3_extractor_bot_def later_event_def)
  next
    case (Inr ie)
    show ?thesis
    proof (cases "truthy ie")
      case False
      with Inr x evs later show ?thesis
        by (intro exI [of _ "Log INFO Step2Extractor # evs @ [Log ERROR ExtractorFailed]"])
           (auto simp add: step3_extractor_bot_def later_event_def)
    next
      case True
      let ?tr4 = "tr' @ [Print (py ''\<newline>--- Extractor Bot Output ---''), Print (the ie)]"
      from step4_events [of e sb paper_text "the ie" ?tr4] obtain evs4 where evs4:
        "snd (step4_synthesizer_bot e sb paper_text (the ie) ?tr4) = ?tr4 @ evs4"
        "\<forall>ev\<in>set evs4. later_event paper_text ev"
        by blast
      from True Inr x evs later evs4 show ?thesis
        by (intro exI [of _ "Log INFO Step2Extractor # evs @
              [Print (py ''\<newline>--- Extractor Bot Output ---''), Print (the ie)] @ evs4"])
           (auto simp add: step3_extractor_bot_def later_event_def)
    qed
  qed
qed

lemma step2_events:
  "\<exists>evs. snd (step2_initialize_chatbots e paper_text tr) = tr @ evs \<and>
         (\<forall>ev\<in>set evs. later_event paper_text ev)"
proof -
  obtain r tr' where x: "init_chatbots e tr = (r, tr')" by force
  from init_chatbots_events [of e tr] x obtain evs where
    evs: "tr' = tr @ evs" "\<forall>ev\<in>set evs. ev = Log INFO (ChatbotInitialized LLM_MODEL)" by auto
  then have later: "\<forall>ev\<in>set evs. later_event paper_text ev" by (auto simp: later_event_def)
  show ?thesis
  proof (cases r)
    case (Inl ex)
    with x evs later show ?thesis
      by (cases "exc_class ex = ValueError")
         (auto simp add: step2_initialize_chatbots_def later_event_def)
  next
    case (Inr bots)
    obtain eb sb where bots: "bots = (eb, sb)" by force
    from step3_events [of e eb sb paper_text tr'] obtain evs3 where evs3:
      "snd (step3_extractor_bot e eb sb paper_text tr') = tr' @ evs3"
      "\<forall>ev\<in>set evs3. later_event paper_text ev"
      by blast
    from Inr bots x evs later evs3 show ?thesis
      by (intro exI [of _ "evs @ evs3"]) (auto simp add: step2_initialize_chatbots_def)
  qed
qed

section \<open>The steps of the pipeline\<close>

lemma step4_fails:
  assumes "execute_task e sb synthesizer_role (synthesis_task_prompt ie paper_text)
             (tr @ [Log INFO Step3Synthesizer]) = (Inr r, tr')"
    and "\<not> truthy r"
  shows "step4_synthesizer_bot e sb paper_text ie tr =
           (None, tr' @ [Log ERROR SynthesizerFailed, Print (py ''\<newline>--- Final Digest: FAILED ---'')])"
  using assms by (simp add: step4_synthesizer_bot_def)

lemma step3_fails:
  assumes "execute_task e eb extractor_role (extraction_task_prompt paper_text)
             (tr @ [Log INFO Step2Extractor]) = (Inr r, tr')"
    and "\<not> truthy r"
  shows "step3_extractor_bot e eb sb paper_text tr = (None, tr' @ [Log ERROR ExtractorFailed])"
  using assms by (simp add: step3_extractor_bot_def)

lemma step3_succeeds:
  assumes "execute_task e eb extractor_role (extraction_task_prompt paper_text)
             (tr @ [Log INFO Step2Extractor]) = (Inr (Some ie), tr')"
    and "ie \<noteq> []"
  shows "step3_extractor_bot e eb sb paper_text tr =
           step4_synthesizer_bot e sb paper_text ie
             (tr' @ [Print (py ''\<newline>--- Extractor Bot Output ---''), Print ie])"
  using assms by (simp add: step3_extractor_bot_def)

lemma step2_succeeds:
  assumes "init_chatbots e tr = (Inr (eb, sb), tr')"
  shows "step2_initialize_chatbots e paper_text tr = step3_extractor_bot e eb sb paper_text tr'"
  using assms by (simp add: step2_initialize_chatbots_def)

lemma pipeline_with_text:
  assumes "extract_text_from_pdf e pdf_path
             [Log INFO (StartingDigestion pdf_path), Log INFO Step1Extracting] = (Some paper_text, tr)"
    and "paper_text \<noteq> []"
  shows "run_digestion_pipeline e pdf_path =
           step2_initialize_chatbots e paper_text (tr @ length_check paper_text)"
  using assms by (simp add: run_digestion_pipeline_def)

lemma pipeline_without_text:
  assumes "\<not> truthy (fst (extract_text_from_pdf e pdf_path
             [Log INFO (StartingDigestion pdf_path), Log INFO Step1Extracting]))"
  shows "run_digestion_pipeline e pdf_path =
           (None, snd (extract_text_from_pdf e pdf_path
             [Log INFO (StartingDigestion pdf_path), Log INFO Step1Extracting]) @ [Log ERROR FailedToExtract])"
  using assms by (auto simp add: run_digestion_pipeline_def split: prod.splits)

lemma str_strip_blank:
  assumes "\<forall>x\<in>set c. isspace x"
  shows "str_strip c = []"
proof -
  from assms have d: "dropWhile isspace c = []" by simp
  show ?thesis unfolding str_strip_def d by simp
qed

text \<open>
  What \<open>strip\<close> returns: a string is whitespace, then a middle part that is empty or
  starts and ends with a character that is not whitespace, then whitespace; the result is
  the middle part.
\<close>

lemma dropWhile_hd: "xs \<noteq> [] \<Longrightarrow> \<not> P (hd xs) \<Longrightarrow> dropWhile P xs = xs"
  by (cases xs) simp_all

lemma str_strip_padded:
  assumes "\<forall>x\<in>set l. isspace x" and "\<forall>x\<in>set r. isspace x"
    and "m = [] \<or> \<not> isspace (hd m) \<and> \<not> isspace (last m)"
  shows "str_strip (l @ m @ r) = m"
proof (cases "m = []")
  case True
  with assms(1,2) show ?thesis using str_strip_blank [of "l @ r"] by auto
next
  case False
  with assms(3) have hd: "\<not> isspace (hd m)" and last: "\<not> isspace (last m)" by simp_all
  have "dropWhile isspace (l @ m @ r) = dropWhile isspace (m @ r)"
    using assms(1) by simp
  also have "\<dots> = m @ r" using False hd by (intro dropWhile_hd) simp_all
  finally have d: "dropWhile isspace (l @ m @ r) = m @ r" .
  have "dropWhile isspace (rev r @ rev m) = dropWhile isspace (rev m)"
    by (rule dropWhile_append2) (use assms(2) in simp)
  moreover have "\<not> isspace (hd (rev m))" using False last by (simp add: hd_rev)
  then have "dropWhile isspace (rev m) = rev m"
    using False by (intro dropWhile_hd) simp_all
  ultimately have "dropWhile isspace (rev (m @ r)) = rev m" by simp
  then show ?thesis by (simp add: str_strip_def d)
qed

lemma failed_to_extract_iff:
  "Log ERROR FailedToExtract \<in> set (snd (run_digestion_pipeline e pdf_path)) \<longleftrightarrow>
   \<not> truthy (fst (extract_text_from_pdf e pdf_path
                     [Log INFO (StartingDigestion pdf_path), Log INFO Step1Extracting]))"
proof (cases "truthy (fst (extract_text_from_pdf e pdf_path
                     [Log INFO (StartingDigestion pdf_path), Log INFO Step1Extracting]))")
  case False
  then show ?thesis by (simp add: pipeline_without_text)
next
  case True
  let ?tr0 = "[Log INFO (StartingDigestion pdf_path), Log INFO Step1Extracting]"
  obtain r tr where x: "extract_text_from_pdf e pdf_path ?tr0 = (r, tr)" by force
  with True obtain paper_text where r: "r = Some paper_text" "paper_text \<noteq> []"
    by (cases r) auto
  from extract_events [of e pdf_path ?tr0] x obtain evs0 where
    evs0: "tr = ?tr0 @ evs0" "\<forall>ev\<in>set evs0. is_Log ev \<and> ev \<noteq> Log ERROR FailedToExtract" by auto
  from step2_events [of e paper_text "tr @ length_check paper_text"] obtain evs where
    evs: "snd (step2_initialize_chatbots e paper_text (tr @ length_check paper_text)) =
            (tr @ length_check paper_text) @ evs"
         "\<forall>ev\<in>set evs. later_event paper_text ev" by blast
  have "Log ERROR FailedToExtract \<notin> set (length_check paper_text)"
    by (simp add: length_check_def Let_def)
  moreover have "Log ERROR FailedToExtract \<notin> set evs" using evs(2) by (auto simp: later_event_def)
  moreover have "Log ERROR FailedToExtract \<notin> set tr" using evs0 by auto
  ultimately have "Log ERROR FailedToExtract \<notin> set (snd (run_digestion_pipeline e pdf_path))"
    using x r evs(1) by (simp add: pipeline_with_text)
  with True show ?thesis by simp
qed

lemma first_stage_called:
  assumes "extract_text_from_pdf e pdf_path
             [Log INFO (StartingDigestion pdf_path), Log INFO Step1Extracting] = (Some paper_text, tr)"
    and "paper_text \<noteq> []"
    and "init_chatbots e (tr @ length_check paper_text) = (Inr (eb, sb), tr')"
  shows "ApiCall (llm_request eb extractor_role (extraction_task_prompt paper_text))
           \<in> set (snd (run_digestion_pipeline e pdf_path))"
proof -
  from step3_events [of e eb sb paper_text tr'] show ?thesis
    unfolding pipeline_with_text [OF assms(1,2)] step2_succeeds [OF assms(3)] by auto
qed

lemma second_stage_called:
  assumes "extract_text_from_pdf e pdf_path
             [Log INFO (StartingDigestion pdf_path), Log INFO Step1Extracting] = (Some paper_text, tr)"
    and "paper_text \<noteq> []"
    and "init_chatbots e (tr @ length_check paper_text) = (Inr (eb, sb), tr')"
    and "execute_task e eb extractor_role (extraction_task_prompt paper_text)
           (tr' @ [Log INFO Step2Extractor]) = (Inr (Some out), tr'')"
    and "out \<noteq> []"
  shows "ApiCall (llm_request sb synthesizer_role (synthesis_task_prompt out paper_text))
           \<in> set (snd (run_digestion_pipeline e pdf_path))"
proof -
  from step4_events [of e sb paper_text out
      "tr'' @ [Print (py ''\<newline>--- Extractor Bot Output ---''), Print out]"]
  show ?thesis
    unfolding pipeline_with_text [OF assms(1,2)] step2_succeeds [OF assms(3)]
      step3_succeeds [OF assms(4,5)] by auto
qed

section \<open>A run on the three-page document\<close>

lemma run_to_first_call:
  "extract_text_from_pdf (mock_env three_page_pdf outcomes) (py ''paper.pdf'')
     [Log INFO (StartingDigestion (py ''paper.pdf'')), Log INFO Step1Extracting] =
     (Some (py ''Problem X. Method Y. Result Z.''),
      [Log INFO (StartingDigestion (py ''paper.pdf'')), Log INFO Step1Extracting,
      Log INFO (OpeningPDF (py ''paper.pdf'')), Log INFO (ExtractingPages 3),
      Log INFO (ExtractedChars 30)])"
  "length_check (py ''Problem X. Method Y. Result Z.'') =
     [Log INFO (TextExtracted 30), Log WARNING (TextIsVeryShort 30)]"
  "init_chatbots (mock_env three_page_pdf outcomes) tr =
     (Inr (extractor_test_bot, synthesizer_test_bot),
      tr @ [Log INFO (ChatbotInitialized LLM_MODEL), Log INFO (ChatbotInitialized LLM_MODEL)])"
    apply (simp add: extract_text_from_pdf_def mock_env_def three_page_pdf_def
          normalize_whitespace_def str_split_def isspace_def py_def)
   apply (simp add: length_check_def MAX_TEXT_LENGTH_WARN_def py_def)
  apply (simp add: init_chatbots_def chatbot_init_def mock_env_def extractor_test_bot_def
      synthesizer_test_bot_def py_def)
  done

lemma first_call:
  assumes "outcomes 0 = completion c" and "c \<noteq> []"
  shows "execute_task (mock_env three_page_pdf outcomes) extractor_test_bot extractor_role
           (extraction_task_prompt (py ''Problem X. Method Y. Result Z.''))
           ([Log INFO (StartingDigestion (py ''paper.pdf'')), Log INFO Step1Extracting,
             Log INFO (OpeningPDF (py ''paper.pdf'')), Log INFO (ExtractingPages 3),
             Log INFO (ExtractedChars 30),
             Log INFO (TextExtracted 30), Log WARNING (TextIsVeryShort 30),
             Log INFO (ChatbotInitialized LLM_MODEL), Log INFO (ChatbotInitialized LLM_MODEL)] @
            [Log INFO Step2Extractor]) =
         (Inr (Some (str_strip c)), trace_to_first_call @ [Log INFO LLMCallSuccessful])"
  using assms
  by (simp add: execute_task_def call_llm_def call_llm_loop.simps mock_env_def completion_def
        trace_to_first_call_def)

lemma second_call:
  assumes "outcomes 1 = completion d"
  shows "execute_task (mock_env three_page_pdf outcomes) synthesizer_test_bot synthesizer_role task
           (trace_to_first_call @ [Log INFO LLMCallSuccessful] @ [Print h, Print ie, Log INFO Step3Synthesizer]) =
         (Inr (if d = [] then None else Some (str_strip d)),
          trace_to_first_call @ [Log INFO LLMCallSuccessful, Print h, Print ie, Log INFO Step3Synthesizer,
            Log INFO (ExecutingTask (take 100 synthesizer_role)), Log INFO (CallingLLM 1 3),
            ApiCall (llm_request synthesizer_test_bot synthesizer_role task),
            if d = [] then Log WARNING LLMEmptyMessage else Log INFO LLMCallSuccessful])"
  using assms
  by (simp add: execute_task_def call_llm_def call_llm_loop.simps mock_env_def completion_def
        trace_to_first_call_def)

lemma strip_replies:
  "str_strip (py ''Core Problem: X'') = py ''Core Problem: X''"
  "str_strip (py ''A fine paper.'') = py ''A fine paper.''"
  by (simp_all add: str_strip_def isspace_def py_def)

section \<open>Replacing the placeholder\<close>

lemma str_replace_absent:
  "old \<noteq> [] \<Longrightarrow> \<not> sublist old s \<Longrightarrow> str_replace old new s = s"
proof (induction old new s rule: str_replace.induct)
  case (1 old new)
  then show ?case by simp
next
  case (2 old new c cs)
  from "2.prems"(2) have np: "\<not> prefix old (c # cs)" and ns: "\<not> sublist old cs"
    by (auto simp: sublist_Cons_right)
  with "2.prems"(1) "2.IH"(3) show ?case by simp
qed

lemma not_sublist_char: "x \<in> set old \<Longrightarrow> x \<notin> set s \<Longrightarrow> \<not> sublist old s"
  using set_mono_sublist by fastforce

section \<open>A run on the long document\<close>

lemma no_brace:
  "123 \<notin> set extraction_prompt_head" "123 \<notin> set extraction_prompt_tail"
  "123 \<notin> set synthesis_prompt_head" "123 \<notin> set synthesis_prompt_middle"
  "123 \<notin> set synthesis_prompt_tail" "123 \<notin> set extraction_reply" "123 \<notin> set long_paper"
  "123 \<in> set placeholder"
  by (simp_all add: extraction_prompt_head_def extraction_prompt_tail_def synthesis_prompt_head_def
        synthesis_prompt_middle_def synthesis_prompt_tail_def extraction_reply_def long_paper_def
        placeholder_def py_def)

lemma no_Z:
  "90 \<notin> set extraction_prompt_head" "90 \<notin> set extraction_prompt_tail"
  "90 \<notin> set synthesis_prompt_head" "90 \<notin> set synthesis_prompt_middle"
  "90 \<notin> set synthesis_prompt_tail" "90 \<notin> set extraction_reply"
  "90 \<in> set long_paper"
  by (simp_all add: extraction_prompt_head_def extraction_prompt_tail_def synthesis_prompt_head_def
        synthesis_prompt_middle_def synthesis_prompt_tail_def extraction_reply_def long_paper_def
        py_def)

lemma long_paper_facts:
  "length long_paper = 8001" "take 8000 long_paper = replicate 8000 97" "long_paper \<noteq> []"
  "word long_paper"
  by (auto simp add: long_paper_def word_def isspace_def)

lemma long_paper_no_placeholder:
  "\<not> sublist placeholder (extraction_prompt long_paper)"
  "\<not> sublist placeholder (synthesis_prompt extraction_reply long_paper)"
proof -
  have t: "123 \<notin> set (take 8000 long_paper)"
    using no_brace(7) by (auto dest: in_set_takeD)
  have "123 \<notin> set (extraction_prompt long_paper)"
    using no_brace(1,2) t by (simp add: extraction_prompt_def)
  with no_brace(8) show "\<not> sublist placeholder (extraction_prompt long_paper)"
    by (rule not_sublist_char)
  have "123 \<notin> set (synthesis_prompt extraction_reply long_paper)"
    using no_brace(3,4,5,6) t by (simp add: synthesis_prompt_def)
  with no_brace(8) show "\<not> sublist placeholder (synthesis_prompt extraction_reply long_paper)"
    by (rule not_sublist_char)
qed

lemma mock_call_succeeds:
  assumes "outcomes (api_calls tr) = completion c" and "c \<noteq> []"
  shows "execute_task (mock_env doc outcomes) b role task tr =
           (Inr (Some (str_strip c)),
            tr @ [Log INFO (ExecutingTask (take 100 role)), Log INFO (CallingLLM 1 3),
                  ApiCall (llm_request b role task), Log INFO LLMCallSuccessful])"
proof -
  let ?tr = "tr @ [Log INFO (ExecutingTask (take 100 role))]"
  have "create (mock_env doc outcomes) (api_calls ?tr) (llm_request b role task) =
          Returns \<lparr>choices = [\<lparr>message = Some \<lparr>content = Some c\<rparr>\<rparr>]\<rparr>"
    using assms(1) by (simp add: mock_env_def completion_def)
  from loop_success [OF _ this, of 0 3 "\<lparr>message = Some \<lparr>content = Some c\<rparr>\<rparr>" "[]"
      "\<lparr>content = Some c\<rparr>" c 5] assms(2)
  show ?thesis by (simp add: execute_task_def call_llm_def)
qed

lemma mock_init_chatbots:
  "init_chatbots (mock_env doc outcomes) tr =
     (Inr (extractor_test_bot, synthesizer_test_bot),
      tr @ [Log INFO (ChatbotInitialized LLM_MODEL), Log INFO (ChatbotInitialized LLM_MODEL)])"
  by (simp add: init_chatbots_def chatbot_init_def mock_env_def extractor_test_bot_def
      synthesizer_test_bot_def py_def)

lemma long_paper_prompts:
  "extraction_task_prompt long_paper =
     extraction_prompt_head @ replicate 8000 97 @ extraction_prompt_tail"
  "synthesis_task_prompt extraction_reply long_paper =
     synthesis_prompt_head @ extraction_reply @ synthesis_prompt_middle @
     replicate 8000 97 @ synthesis_prompt_tail"
proof -
  have ne: "placeholder \<noteq> []" by (simp add: placeholder_def py_def)
  show "extraction_task_prompt long_paper =
     extraction_prompt_head @ replicate 8000 97 @ extraction_prompt_tail"
    unfolding extraction_task_prompt_def
      str_replace_absent [OF ne long_paper_no_placeholder(1)]
    by (simp add: extraction_prompt_def long_paper_facts)
  show "synthesis_task_prompt extraction_reply long_paper =
     synthesis_prompt_head @ extraction_reply @ synthesis_prompt_middle @
     replicate 8000 97 @ synthesis_prompt_tail"
    unfolding synthesis_task_prompt_def
      str_replace_absent [OF ne long_paper_no_placeholder(2)]
    by (simp add: synthesis_prompt_def long_paper_facts)
qed

lemma long_extract:
  "extract_text_from_pdf long_pdf_env (py ''long.pdf'')
     [Log INFO (StartingDigestion (py ''long.pdf'')), Log INFO Step1Extracting] =
   (Some long_paper,
    [Log INFO (StartingDigestion (py ''long.pdf'')), Log INFO Step1Extracting,
     Log INFO (OpeningPDF (py ''long.pdf'')), Log INFO (ExtractingPages 1),
     Log INFO (ExtractedChars 8001)])"
proof -
  have "normalize_whitespace long_paper = long_paper"
    by (simp add: normalize_whitespace_def str_split_def split_scan_word long_paper_facts)
  then show ?thesis
    by (simp add: extract_text_from_pdf_def long_pdf_env_def mock_env_def one_page_pdf_def
          long_paper_facts)
qed

lemma long_run:
  "run_digestion_pipeline long_pdf_env (py ''long.pdf'') =
   (None,
    [Log INFO (StartingDigestion (py ''long.pdf'')), Log INFO Step1Extracting,
     Log INFO (OpeningPDF (py ''long.pdf'')), Log INFO (ExtractingPages 1),
     Log INFO (ExtractedChars 8001),
     Log INFO (TextExtracted 8001),
     Log INFO (ChatbotInitialized LLM_MODEL), Log INFO (ChatbotInitialized LLM_MODEL),
     Log INFO Step2Extractor,
     Log INFO (ExecutingTask (take 100 extractor_role)), Log INFO (CallingLLM 1 3),
     ApiCall truncated_extraction_request,
     Log INFO LLMCallSuccessful,
     Print (py ''\<newline>--- Extractor Bot Output ---''), Print extraction_reply,
     Log INFO Step3Synthesizer,
     Log INFO (ExecutingTask (take 100 synthesizer_role)), Log INFO (CallingLLM 1 3),
     ApiCall truncated_synthesis_request,
     Log INFO LLMCallSuccessful,
     Print (py ''\<newline>--- Final Synthesized Digest ---''), Print synthesis_reply,
     Log INFO PipelineCompleted])"
proof -
  let ?out = "\<lambda>n::nat. if n = 0 then completion extraction_reply else completion synthesis_reply"
  have lc: "length_check long_paper = [Log INFO (TextExtracted 8001)]"
    by (simp add: length_check_def long_paper_facts MAX_TEXT_LENGTH_WARN_def)
  have r: "extraction_reply \<noteq> []" "synthesis_reply \<noteq> []"
    "str_strip extraction_reply = extraction_reply" "str_strip synthesis_reply = synthesis_reply"
    by (simp_all add: extraction_reply_def synthesis_reply_def strip_replies) (simp_all add: py_def)
  let ?tr2 = "[Log INFO (StartingDigestion (py ''long.pdf'')), Log INFO Step1Extracting,
     Log INFO (OpeningPDF (py ''long.pdf'')), Log INFO (ExtractingPages 1),
     Log INFO (ExtractedChars 8001),
     Log INFO (TextExtracted 8001),
     Log INFO (ChatbotInitialized LLM_MODEL), Log INFO (ChatbotInitialized LLM_MODEL)]"
  have i: "init_chatbots long_pdf_env
       ([Log INFO (StartingDigestion (py ''long.pdf'')), Log INFO Step1Extracting,
         Log INFO (OpeningPDF (py ''long.pdf'')), Log INFO (ExtractingPages 1),
         Log INFO (ExtractedChars 8001)] @ length_check long_paper) =
       (Inr (extractor_test_bot, synthesizer_test_bot), ?tr2)"
    by (simp add: long_pdf_env_def mock_init_chatbots lc)
  let ?tr3 = "?tr2 @ [Log INFO Step2Extractor,
     Log INFO (ExecutingTask (take 100 extractor_role)), Log INFO (CallingLLM 1 3),
     ApiCall truncated_extraction_request, Log INFO LLMCallSuccessful]"
  have s1: "execute_task long_pdf_env extractor_test_bot extractor_role
              (extraction_task_prompt long_paper) (?tr2 @ [Log INFO Step2Extractor]) =
            (Inr (Some extraction_reply), ?tr3)"
    unfolding long_pdf_env_def
    using mock_call_succeeds [of ?out "?tr2 @ [Log INFO Step2Extractor]" extraction_reply
        "one_page_pdf long_paper" extractor_test_bot extractor_role "extraction_task_prompt long_paper"] r
    by (simp add: long_paper_prompts truncated_extraction_request_def)
  let ?tr4 = "?tr3 @ [Print (py ''\<newline>--- Extractor Bot Output ---''), Print extraction_reply]"
  have s2: "execute_task long_pdf_env synthesizer_test_bot synthesizer_role
              (synthesis_task_prompt extraction_reply long_paper) (?tr4 @ [Log INFO Step3Synthesizer]) =
            (Inr (Some synthesis_reply),
             ?tr4 @ [Log INFO Step3Synthesizer,
               Log INFO (ExecutingTask (take 100 synthesizer_role)), Log INFO (CallingLLM 1 3),
               ApiCall truncated_synthesis_request, Log INFO LLMCallSuccessful])"
    unfolding long_pdf_env_def
    using mock_call_succeeds [of ?out "?tr4 @ [Log INFO Step3Synthesizer]" synthesis_reply
        "one_page_pdf long_paper" synthesizer_test_bot synthesizer_role
        "synthesis_task_prompt extraction_reply long_paper"] r
    by (simp add: long_paper_prompts truncated_synthesis_request_def)
  show ?thesis
    unfolding pipeline_with_text [OF long_extract long_paper_facts(3)] step2_succeeds [OF i]
      step3_succeeds [OF s1 r(1)]
    using s2 r(2) by (simp add: step4_synthesizer_bot_def)
qed

section \<open>The text extractor\<close>

text \<open>
  C7 (amended). \<open>extract_text_from_pdf\<close> returns \<open>None\<close> exactly when opening the
  path, reading a page or closing the document raises; the exception is caught and does
  not reach the caller. For a document that is read without exception and has no page, or
  no text other than whitespace, it returns the empty string: a string, not \<open>None\<close>,
  which is false in the callers' \<open>if\<close> tests.
\<close>

theorem blank_pdf_gives_empty_string:
  "(fst (extract_text_from_pdf e pdf_path tr) = None \<longleftrightarrow> reading_raises e pdf_path) \<and>
   (fitz_open e pdf_path = Inr doc \<and> \<not> reading_raises e pdf_path \<and> blank doc \<longrightarrow>
      fst (extract_text_from_pdf e pdf_path tr) = Some [] \<and>
      \<not> truthy (fst (extract_text_from_pdf e pdf_path tr)))"
  using extract_None_iff [of e pdf_path tr] extract_blank [of e pdf_path doc tr] by auto

theorem blank_pdf_gives_empty_string_witness:
  "\<not> reading_raises (mock_env (one_page_pdf [32, 10, 9]) (\<lambda>n. rate_limited)) (py ''scan.pdf'') \<and>
   blank \<lparr>pages = [Inr [32, 10, 9]], close_raises = None\<rparr> \<and>
   fst (extract_text_from_pdf (mock_env (one_page_pdf [32, 10, 9]) (\<lambda>n. rate_limited)) (py ''scan.pdf'') []) = Some [] \<and>
   \<not> truthy (fst (extract_text_from_pdf (mock_env (one_page_pdf [32, 10, 9]) (\<lambda>n. rate_limited)) (py ''scan.pdf'') []))"
  using blank_pdf_gives_empty_string
    [where e = "mock_env (one_page_pdf [32, 10, 9]) (\<lambda>n. rate_limited)" and pdf_path = "py ''scan.pdf''"
       and tr = "[]" and doc = "\<lparr>pages = [Inr [32, 10, 9]], close_raises = None\<rparr>"]
  by (simp add: mock_env_def one_page_pdf_def reading_raises_def blank_def isspace_def)

text \<open>
  A document with no page, and a one-page document whose text is a space, a newline and a
  tab: neither result is \<open>None\<close>.
\<close>

theorem blank_pdf_not_absent_counterexample:
  "fst (extract_text_from_pdf (mock_env (Inr \<lparr>pages = [], close_raises = None\<rparr>) (\<lambda>n. rate_limited))
          (py ''empty.pdf'') []) \<noteq> None \<and>
   fst (extract_text_from_pdf (mock_env (one_page_pdf [32, 10, 9]) (\<lambda>n. rate_limited))
          (py ''scan.pdf'') []) \<noteq> None"
  by (simp add: extract_text_from_pdf_def mock_env_def one_page_pdf_def normalize_whitespace_def
        str_split_def isspace_def)

text \<open>
  C8. A text returned by \<open>extract_text_from_pdf\<close> has no tab and no newline; its only
  whitespace character is the space, never two side by side, and none at the start or the
  end. Extracting again from the same path gives the same text, and normalizing the text
  again leaves it unchanged.
\<close>

theorem extracted_text_normalized:
  assumes "fst (extract_text_from_pdf e pdf_path tr) = Some t"
  shows "9 \<notin> set t \<and> 10 \<notin> set t \<and> (\<forall>c\<in>set t. isspace c \<longrightarrow> c = 32) \<and>
         \<not> sublist [32, 32] t \<and>
         (t \<noteq> [] \<longrightarrow> \<not> isspace (hd t) \<and> \<not> isspace (last t)) \<and>
         fst (extract_text_from_pdf e pdf_path (snd (extract_text_from_pdf e pdf_path tr))) = Some t \<and>
         normalize_whitespace t = t"
proof -
  from extract_Some [OF assms] obtain raw where t: "t = normalize_whitespace raw" by blast
  let ?ws = "split_scan [] raw"
  have ws: "\<forall>x\<in>set ?ws. word x" by (rule split_scan_words) simp
  have tj: "t = str_join [32] ?ws" by (simp add: t normalize_whitespace_def str_split_def)
  have sp: "\<forall>c\<in>set t. isspace c \<longrightarrow> c = 32"
    unfolding tj using join_space_only [OF ws] by blast
  then have tabs: "9 \<notin> set t \<and> 10 \<notin> set t" by force
  have dbl: "\<not> sublist [32, 32] t"
    unfolding tj sublist_adjacent_spaces using ws by (rule join_no_adjacent_spaces)
  have ends: "t \<noteq> [] \<longrightarrow> \<not> isspace (hd t) \<and> \<not> isspace (last t)"
  proof
    assume "t \<noteq> []"
    then have ne: "?ws \<noteq> []" unfolding tj by auto
    then have "word (hd ?ws)" "word (last ?ws)" using ws by simp_all
    then have "\<not> isspace (hd (hd ?ws))" "\<not> isspace (last (last ?ws))" by (simp_all add: word_def)
    then show "\<not> isspace (hd t) \<and> \<not> isspace (last t)"
      unfolding tj using join_hd [OF ws ne] join_last [OF ws ne] by simp
  qed
  have again: "fst (extract_text_from_pdf e pdf_path (snd (extract_text_from_pdf e pdf_path tr))) = Some t"
    using assms by (auto simp add: extract_text_from_pdf_def Let_def split: sum.splits option.splits)
  have idem: "normalize_whitespace t = t" unfolding t by (rule normalize_idem)
  from tabs sp dbl ends again idem show ?thesis by blast
qed

theorem extracted_text_normalized_witness:
  "fst (extract_text_from_pdf
          (mock_env (one_page_pdf ([32, 9] @ py ''Problem  X.'' @ [10, 13] @ py ''Method Y. '')) (\<lambda>n. rate_limited))
          (py ''paper.pdf'') []) = Some (py ''Problem X. Method Y.'') \<and>
   9 \<notin> set (py ''Problem X. Method Y.'') \<and> 10 \<notin> set (py ''Problem X. Method Y.'') \<and>
   \<not> sublist [32, 32] (py ''Problem X. Method Y.'') \<and>
   \<not> isspace (hd (py ''Problem X. Method Y.'')) \<and> \<not> isspace (last (py ''Problem X. Method Y.'')) \<and>
   normalize_whitespace (py ''Problem X. Method Y.'') = py ''Problem X. Method Y.''"
proof -
  have h: "fst (extract_text_from_pdf
          (mock_env (one_page_pdf ([32, 9] @ py ''Problem  X.'' @ [10, 13] @ py ''Method Y. '')) (\<lambda>n. rate_limited))
          (py ''paper.pdf'') []) = Some (py ''Problem X. Method Y.'')"
    by (simp add: extract_text_from_pdf_def mock_env_def one_page_pdf_def normalize_whitespace_def
          str_split_def isspace_def py_def)
  have ne: "py ''Problem X. Method Y.'' \<noteq> []" by (simp add: py_def)
  from extracted_text_normalized [OF h] h ne show ?thesis by blast
qed

section \<open>The LLM client\<close>

text \<open>
  C3. The claim: an error that is neither rate limiting nor a server error, such as a
  network, parse or authentication error, ends \<open>_call_llm\<close> after one attempt, with no
  retry and no delay. The code: the errors of these three kinds are \<open>APIError\<close>
  instances, so the clause \<open>except APIError\<close> catches them and the call is retried.
  With an API that answers every call with an authentication error, the client with the
  default configuration calls it three times, sleeps 5 after each call, and only then
  returns \<open>None\<close>; a network error and a parse error on the first call are followed by
  a sleep and a second call as well.
\<close>

theorem authentication_error_is_retried:
  "call_llm (mock_env (Inl connection_refused) (\<lambda>n. Raises invalid_api_key))
      test_bot (py ''role'') (py ''task'') 3 5 [] =
     (Inr None,
      [Log INFO (CallingLLM 1 3), ApiCall test_request,
       Log WARNING (APIErrorOccurred invalid_api_key 5 1 3), Sleep 5,
       Log INFO (CallingLLM 2 3), ApiCall test_request,
       Log WARNING (APIErrorOccurred invalid_api_key 5 2 3), Sleep 5,
       Log INFO (CallingLLM 3 3), ApiCall test_request,
       Log WARNING (APIErrorOccurred invalid_api_key 5 3 3), Sleep 5,
       Log ERROR LLMFailedAfterRetries]) \<and>
   without_logs (snd (call_llm
      (mock_env (Inl connection_refused)
         (\<lambda>n. if n = 0 then Raises (PyExc APIConnectionError (py ''Connection error.''))
              else completion (py ''ok'')))
      test_bot (py ''role'') (py ''task'') 3 5 [])) =
     [ApiCall test_request, Sleep 5, ApiCall test_request] \<and>
   without_logs (snd (call_llm
      (mock_env (Inl connection_refused)
         (\<lambda>n. if n = 0 then Raises (PyExc APIResponseValidationError (py ''Data returned by API invalid''))
              else completion (py ''ok'')))
      test_bot (py ''role'') (py ''task'') 3 5 [])) =
     [ApiCall test_request, Sleep 5, ApiCall test_request]"
  by (simp add: call_llm_def call_llm_loop.simps mock_env_def invalid_api_key_def
        completion_def test_request_def Let_def py_def)

text \<open>
  C6. When the first API call returns a response with an empty or missing message body,
  the client returns \<open>None\<close> after that one call, without sleeping or calling again.
\<close>

theorem empty_body_single_attempt:
  assumes "0 < max_retries"
    and "create e (api_calls tr) (llm_request self sp up) = Returns resp"
    and "empty_body resp"
  shows "fst (call_llm e self sp up max_retries delay tr) = Inr None \<and>
         api_calls (snd (call_llm e self sp up max_retries delay tr)) = api_calls tr + 1 \<and>
         without_logs (snd (call_llm e self sp up max_retries delay tr)) =
           without_logs tr @ [ApiCall (llm_request self sp up)]"
proof -
  from loop_empty_body [OF _ assms(2,3), of 0 max_retries delay] assms(1)
  obtain m where "call_llm_loop e self sp up max_retries delay 0 tr =
     (Inr None,
      tr @ [Log INFO (CallingLLM (0 + 1) max_retries), ApiCall (llm_request self sp up),
            Log WARNING m])"
    by blast
  then show ?thesis by (simp add: call_llm_def)
qed

theorem empty_body_single_attempt_witness:
  "fst (call_llm (mock_env (Inl connection_refused) (\<lambda>n. completion [])) test_bot
          (py ''role'') (py ''task'') 3 5 []) = Inr None \<and>
   api_calls (snd (call_llm (mock_env (Inl connection_refused) (\<lambda>n. completion [])) test_bot
          (py ''role'') (py ''task'') 3 5 [])) = 1 \<and>
   without_logs (snd (call_llm (mock_env (Inl connection_refused) (\<lambda>n. completion [])) test_bot
          (py ''role'') (py ''task'') 3 5 [])) = [ApiCall test_request]"
  using empty_body_single_attempt
    [where max_retries = 3 and tr = "[]" and self = test_bot and sp = "py ''role''"
       and up = "py ''task''" and delay = 5
       and resp = "\<lparr>choices = [\<lparr>message = Some \<lparr>content = Some []\<rparr>\<rparr>]\<rparr>"
       and e = "mock_env (Inl connection_refused) (\<lambda>n. completion [])"]
  by (simp add: mock_env_def completion_def empty_body_def test_request_def)

text \<open>
  C4. When every API call fails with a retryable exception (and the delay is not negative),
  \<open>_call_llm\<close> returns \<open>None\<close> after exactly \<open>max_retries\<close> calls (none when
  \<open>max_retries\<close> is negative), each followed by a sleep of \<open>delay\<close>. Through
  \<open>execute_task\<close>, which uses the defaults, these are 3 calls, each followed by a sleep
  of 5.
\<close>

theorem always_retryable_exhausts_retries:
  assumes "0 \<le> delay"
    and "\<forall>n\<ge>api_calls tr. \<exists>ex. create e n (llm_request self sp up) = Raises ex \<and> retryable ex"
  shows "fst (call_llm e self sp up max_retries delay tr) = Inr None \<and>
         api_calls (snd (call_llm e self sp up max_retries delay tr)) = api_calls tr + nat max_retries \<and>
         without_logs (snd (call_llm e self sp up max_retries delay tr)) =
           without_logs tr @
           concat (replicate (nat max_retries) [ApiCall (llm_request self sp up), Sleep delay]) \<and>
         fst (execute_task e self sp up tr) = Inr None \<and>
         without_logs (snd (execute_task e self sp up tr)) =
           without_logs tr @
           [ApiCall (llm_request self sp up), Sleep 5, ApiCall (llm_request self sp up), Sleep 5,
            ApiCall (llm_request self sp up), Sleep 5]"
proof -
  let ?tr = "tr @ [Log INFO (ExecutingTask (take 100 sp))]"
  have "\<forall>n\<ge>api_calls ?tr. \<exists>ex. create e n (llm_request self sp up) = Raises ex \<and> retryable ex"
    using assms(2) by simp
  from call_llm_all_retryable [OF _ this, of 5 3]
  have "fst (execute_task e self sp up tr) = Inr None \<and>
        without_logs (snd (execute_task e self sp up tr)) =
           without_logs tr @
           [ApiCall (llm_request self sp up), Sleep 5, ApiCall (llm_request self sp up), Sleep 5,
            ApiCall (llm_request self sp up), Sleep 5]"
    by (simp add: execute_task_def eval_nat_numeral)
  with call_llm_all_retryable [OF assms] show ?thesis by simp
qed

theorem always_retryable_exhausts_retries_witness:
  "fst (call_llm (mock_env (Inl connection_refused) (\<lambda>n. if even n then rate_limited else server_error))
          test_bot (py ''role'') (py ''task'') 2 7 []) = Inr None \<and>
   api_calls (snd (call_llm (mock_env (Inl connection_refused) (\<lambda>n. if even n then rate_limited else server_error))
          test_bot (py ''role'') (py ''task'') 2 7 [])) = 2 \<and>
   without_logs (snd (call_llm (mock_env (Inl connection_refused) (\<lambda>n. if even n then rate_limited else server_error))
          test_bot (py ''role'') (py ''task'') 2 7 [])) =
     [ApiCall test_request, Sleep 7, ApiCall test_request, Sleep 7] \<and>
   fst (execute_task (mock_env (Inl connection_refused) (\<lambda>n. if even n then rate_limited else server_error))
          test_bot (py ''role'') (py ''task'') []) = Inr None \<and>
   without_logs (snd (execute_task (mock_env (Inl connection_refused) (\<lambda>n. if even n then rate_limited else server_error))
          test_bot (py ''role'') (py ''task'') [])) =
     [ApiCall test_request, Sleep 5, ApiCall test_request, Sleep 5, ApiCall test_request, Sleep 5]"
  using always_retryable_exhausts_retries
    [where max_retries = 2 and tr = "[]" and self = test_bot and sp = "py ''role''"
       and up = "py ''task''" and delay = 7
       and e = "mock_env (Inl connection_refused) (\<lambda>n. if even n then rate_limited else server_error)"]
  by (simp add: mock_env_def rate_limited_def server_error_def retryable_def test_request_def
        eval_nat_numeral)

text \<open>
  C5 (amended). When the first \<open>k < max_retries\<close> API calls fail with a retryable
  exception and the next one returns a non-empty content, \<open>_call_llm\<close> returns that
  content with leading and trailing whitespace stripped, after exactly \<open>k + 1\<close> calls and
  \<open>k\<close> sleeps.
\<close>

theorem retry_then_success:
  assumes "int k < max_retries" and "0 \<le> delay"
    and "\<forall>i<k. \<exists>ex. create e (api_calls tr + i) (llm_request self sp up) = Raises ex \<and> retryable ex"
    and "create e (api_calls tr + k) (llm_request self sp up) = Returns resp"
    and "choices resp = ch # chs" and "message ch = Some msg" and "content msg = Some c" and "c \<noteq> []"
  shows "fst (call_llm e self sp up max_retries delay tr) = Inr (Some (str_strip c)) \<and>
         api_calls (snd (call_llm e self sp up max_retries delay tr)) = api_calls tr + (k + 1) \<and>
         without_logs (snd (call_llm e self sp up max_retries delay tr)) =
           without_logs tr @ concat (replicate k [ApiCall (llm_request self sp up), Sleep delay]) @
           [ApiCall (llm_request self sp up)]"
proof -
  have le: "0 + int k \<le> max_retries" using assms(1) by simp
  from loop_k_retries [OF assms(2) le assms(3)] obtain tr' where tr':
    "call_llm_loop e self sp up max_retries delay 0 tr =
       call_llm_loop e self sp up max_retries delay (0 + int k) tr'"
    "api_calls tr' = api_calls tr + k"
    "without_logs tr' = without_logs tr @ concat (replicate k [ApiCall (llm_request self sp up), Sleep delay])"
    by blast
  have lt: "0 + int k < max_retries" using assms(1) by simp
  have ret: "create e (api_calls tr') (llm_request self sp up) = Returns resp"
    using assms(4) tr'(2) by simp
  show ?thesis
    unfolding call_llm_def tr'(1) loop_success [OF lt ret assms(5-8)]
    using tr'(2,3) by simp
qed

theorem retry_then_success_witness:
  "fst (call_llm (mock_env (Inl connection_refused) (\<lambda>n. if n = 0 then rate_limited else completion (py '' ok'')))
          test_bot (py ''role'') (py ''task'') 3 5 []) = Inr (Some (py ''ok'')) \<and>
   api_calls (snd (call_llm (mock_env (Inl connection_refused) (\<lambda>n. if n = 0 then rate_limited else completion (py '' ok'')))
          test_bot (py ''role'') (py ''task'') 3 5 [])) = 2 \<and>
   without_logs (snd (call_llm (mock_env (Inl connection_refused) (\<lambda>n. if n = 0 then rate_limited else completion (py '' ok'')))
          test_bot (py ''role'') (py ''task'') 3 5 [])) =
     [ApiCall test_request, Sleep 5, ApiCall test_request]"
  using retry_then_success
    [where k = 1 and max_retries = 3 and tr = "[]" and self = test_bot and sp = "py ''role''"
       and up = "py ''task''" and delay = 5 and c = "py '' ok''"
       and resp = "\<lparr>choices = [\<lparr>message = Some \<lparr>content = Some (py '' ok'')\<rparr>\<rparr>]\<rparr>"
       and ch = "\<lparr>message = Some \<lparr>content = Some (py '' ok'')\<rparr>\<rparr>" and chs = "[]"
       and msg = "\<lparr>content = Some (py '' ok'')\<rparr>"
       and e = "mock_env (Inl connection_refused) (\<lambda>n. if n = 0 then rate_limited else completion (py '' ok''))"]
  by (simp add: mock_env_def rate_limited_def completion_def retryable_def test_request_def
        str_strip_def isspace_def py_def)

text \<open>
  The content is not returned as the API gave it: after one rate-limit error the API
  answers \<open>" ok"\<close> and the client returns \<open>"ok"\<close>.
\<close>

theorem retry_then_success_content_counterexample:
  "fst (call_llm (mock_env (Inl connection_refused) (\<lambda>n. if n = 0 then rate_limited else completion (py '' ok'')))
          test_bot (py ''role'') (py ''task'') 3 5 []) \<noteq> Inr (Some (py '' ok''))"
  by (simp add: call_llm_def call_llm_loop.simps mock_env_def rate_limited_def completion_def
        str_strip_def isspace_def py_def)

text \<open>
  C10. A successful call returns the content without its leading and trailing whitespace:
  for a non-empty content made of whitespace \<open>l\<close>, then a middle part \<open>m\<close> that is empty
  or starts and ends with a character that is not whitespace, then whitespace \<open>r\<close>, the
  client returns \<open>m\<close>. So a non-empty content of whitespace only gives the empty string,
  not \<open>None\<close>. In the orchestrator, step 3 and step 4 do the same for the empty string as
  for \<open>None\<close>: they report the stage as failed and return.
\<close>

theorem whitespace_only_completion_counts_as_failure:
  "(attempt < max_retries \<and> create e (api_calls tr) (llm_request self sp up) = Returns resp \<and>
    choices resp = ch # chs \<and> message ch = Some msg \<and> content msg = Some (l @ m @ r) \<and>
    l @ m @ r \<noteq> [] \<and> (\<forall>x\<in>set l. isspace x) \<and> (\<forall>x\<in>set r. isspace x) \<and>
    (m = [] \<or> \<not> isspace (hd m) \<and> \<not> isspace (last m)) \<longrightarrow>
      call_llm_loop e self sp up max_retries delay attempt tr =
        (Inr (Some m),
         tr @ [Log INFO (CallingLLM (attempt + 1) max_retries), ApiCall (llm_request self sp up),
               Log INFO LLMCallSuccessful])) \<and>
   (attempt < max_retries \<and> create e (api_calls tr) (llm_request self sp up) = Returns resp \<and>
    choices resp = ch # chs \<and> message ch = Some msg \<and> content msg = Some c \<and> c \<noteq> [] \<and>
    (\<forall>x\<in>set c. isspace x) \<longrightarrow>
      fst (call_llm_loop e self sp up max_retries delay attempt tr) = Inr (Some [])) \<and>
   (execute_task e eb extractor_role (extraction_task_prompt paper_text)
      (tr @ [Log INFO Step2Extractor]) = (Inr r', tr') \<and> (r' = None \<or> r' = Some []) \<longrightarrow>
      step3_extractor_bot e eb sb paper_text tr = (None, tr' @ [Log ERROR ExtractorFailed])) \<and>
   (execute_task e sb synthesizer_role (synthesis_task_prompt ie paper_text)
      (tr @ [Log INFO Step3Synthesizer]) = (Inr r', tr') \<and> (r' = None \<or> r' = Some []) \<longrightarrow>
      step4_synthesizer_bot e sb paper_text ie tr =
        (None, tr' @ [Log ERROR SynthesizerFailed, Print (py ''\<newline>--- Final Digest: FAILED ---'')]))"
proof (intro conjI impI)
  assume a: "attempt < max_retries \<and> create e (api_calls tr) (llm_request self sp up) = Returns resp \<and>
    choices resp = ch # chs \<and> message ch = Some msg \<and> content msg = Some (l @ m @ r) \<and>
    l @ m @ r \<noteq> [] \<and> (\<forall>x\<in>set l. isspace x) \<and> (\<forall>x\<in>set r. isspace x) \<and>
    (m = [] \<or> \<not> isspace (hd m) \<and> \<not> isspace (last m))"
  then have "str_strip (l @ m @ r) = m" by (intro str_strip_padded) simp_all
  with a show "call_llm_loop e self sp up max_retries delay attempt tr =
        (Inr (Some m),
         tr @ [Log INFO (CallingLLM (attempt + 1) max_retries), ApiCall (llm_request self sp up),
               Log INFO LLMCallSuccessful])"
    using loop_success [of attempt max_retries e tr self sp up resp ch chs msg "l @ m @ r" delay]
    by simp
next
  assume a: "attempt < max_retries \<and> create e (api_calls tr) (llm_request self sp up) = Returns resp \<and>
    choices resp = ch # chs \<and> message ch = Some msg \<and> content msg = Some c \<and> c \<noteq> [] \<and>
    (\<forall>x\<in>set c. isspace x)"
  then have "str_strip c = []" by (intro str_strip_blank) simp
  with a show "fst (call_llm_loop e self sp up max_retries delay attempt tr) = Inr (Some [])"
    using loop_success [of attempt max_retries e tr self sp up resp ch chs msg c delay]
    by simp
next
  assume "execute_task e eb extractor_role (extraction_task_prompt paper_text)
      (tr @ [Log INFO Step2Extractor]) = (Inr r', tr') \<and> (r' = None \<or> r' = Some [])"
  then show "step3_extractor_bot e eb sb paper_text tr = (None, tr' @ [Log ERROR ExtractorFailed])"
    by (intro step3_fails [where r = r']) auto
next
  assume "execute_task e sb synthesizer_role (synthesis_task_prompt ie paper_text)
      (tr @ [Log INFO Step3Synthesizer]) = (Inr r', tr') \<and> (r' = None \<or> r' = Some [])"
  then show "step4_synthesizer_bot e sb paper_text ie tr =
        (None, tr' @ [Log ERROR SynthesizerFailed, Print (py ''\<newline>--- Final Digest: FAILED ---'')])"
    by (intro step4_fails [where r = r']) auto
qed

theorem whitespace_only_completion_counts_as_failure_witness:
  "call_llm_loop (mock_env three_page_pdf (\<lambda>n. completion ([32, 10] @ extraction_reply @ [9, 32])))
     extractor_test_bot extractor_role (extraction_task_prompt short_paper) 3 5 0
     (trace_to_chatbots @ [Log INFO Step2Extractor, Log INFO (ExecutingTask (take 100 extractor_role))]) =
     (Inr (Some extraction_reply), trace_to_first_call @ [Log INFO LLMCallSuccessful]) \<and>
   fst (call_llm_loop (mock_env three_page_pdf (\<lambda>n. completion [32, 10]))
          extractor_test_bot extractor_role (extraction_task_prompt short_paper) 3 5 0
          (trace_to_chatbots @ [Log INFO Step2Extractor, Log INFO (ExecutingTask (take 100 extractor_role))])) =
     Inr (Some []) \<and>
   step3_extractor_bot (mock_env three_page_pdf (\<lambda>n. completion [32, 10]))
     extractor_test_bot synthesizer_test_bot short_paper trace_to_chatbots =
     (None, trace_to_first_call @ [Log INFO LLMCallSuccessful, Log ERROR ExtractorFailed])"
proof -
  let ?P = "mock_env three_page_pdf (\<lambda>n. completion ([32, 10] @ extraction_reply @ [9, 32]))"
  let ?W = "mock_env three_page_pdf (\<lambda>n. completion [32, 10])"
  let ?tr = "trace_to_chatbots @ [Log INFO Step2Extractor, Log INFO (ExecutingTask (take 100 extractor_role))]"
  let ?req = "llm_request extractor_test_bot extractor_role (extraction_task_prompt short_paper)"
  let ?pc = "[32, 10] @ extraction_reply @ [9, 32]"
  have h0: "(0::int) < 3 \<and>
    create ?P (api_calls ?tr) ?req = Returns \<lparr>choices = [\<lparr>message = Some \<lparr>content = Some ?pc\<rparr>\<rparr>]\<rparr> \<and>
    choices \<lparr>choices = [\<lparr>message = Some \<lparr>content = Some ?pc\<rparr>\<rparr>]\<rparr> = \<lparr>message = Some \<lparr>content = Some ?pc\<rparr>\<rparr> # [] \<and>
    message \<lparr>message = Some \<lparr>content = Some ?pc\<rparr>\<rparr> = Some \<lparr>content = Some ?pc\<rparr> \<and>
    content \<lparr>content = Some ?pc\<rparr> = Some ?pc \<and> ?pc \<noteq> [] \<and>
    (\<forall>x\<in>set [32, 10]. isspace x) \<and> (\<forall>x\<in>set [9, 32]. isspace x) \<and>
    (extraction_reply = [] \<or> \<not> isspace (hd extraction_reply) \<and> \<not> isspace (last extraction_reply))"
    by (simp add: mock_env_def completion_def trace_to_chatbots_def)
       (simp add: extraction_reply_def py_def isspace_def)
  have h1: "(0::int) < 3 \<and> create ?W (api_calls ?tr) ?req = Returns \<lparr>choices = [\<lparr>message = Some \<lparr>content = Some [32, 10]\<rparr>\<rparr>]\<rparr> \<and>
    choices \<lparr>choices = [\<lparr>message = Some \<lparr>content = Some [32, 10]\<rparr>\<rparr>]\<rparr> = \<lparr>message = Some \<lparr>content = Some [32, 10]\<rparr>\<rparr> # [] \<and>
    message \<lparr>message = Some \<lparr>content = Some [32, 10]\<rparr>\<rparr> = Some \<lparr>content = Some [32, 10]\<rparr> \<and>
    content \<lparr>content = Some [32, 10]\<rparr> = Some [32, 10] \<and> [32, 10] \<noteq> ([]::pystr) \<and>
    (\<forall>x\<in>set [32, 10]. isspace x)"
    by (simp add: mock_env_def completion_def trace_to_chatbots_def)
  have h2: "\<forall>x\<in>set [32, 10]. isspace x" by simp
  have h3: "execute_task ?W extractor_test_bot extractor_role (extraction_task_prompt short_paper)
      (trace_to_chatbots @ [Log INFO Step2Extractor]) =
      (Inr (Some []), trace_to_first_call @ [Log INFO LLMCallSuccessful]) \<and> (Some [] = None \<or> Some [] = Some ([]::pystr))"
    using first_call [of "\<lambda>n. completion [32, 10]" "[32, 10]"] str_strip_blank [OF h2]
    by (simp add: short_paper_def trace_to_chatbots_def)
  from whitespace_only_completion_counts_as_failure
    [where attempt = 0 and max_retries = 3 and e = ?P and tr = ?tr and self = extractor_test_bot
       and sp = extractor_role and up = "extraction_task_prompt short_paper"
       and resp = "\<lparr>choices = [\<lparr>message = Some \<lparr>content = Some ?pc\<rparr>\<rparr>]\<rparr>"
       and ch = "\<lparr>message = Some \<lparr>content = Some ?pc\<rparr>\<rparr>" and chs = "[]"
       and msg = "\<lparr>content = Some ?pc\<rparr>" and l = "[32, 10]" and m = extraction_reply
       and r = "[9, 32]" and delay = 5]
    h0
  have p: "call_llm_loop ?P extractor_test_bot extractor_role (extraction_task_prompt short_paper) 3 5 0 ?tr =
     (Inr (Some extraction_reply),
      ?tr @ [Log INFO (CallingLLM (0 + 1) 3), ApiCall ?req, Log INFO LLMCallSuccessful])"
    by blast
  from whitespace_only_completion_counts_as_failure
    [where attempt = 0 and max_retries = 3 and e = ?W and tr = ?tr and self = extractor_test_bot
       and sp = extractor_role and up = "extraction_task_prompt short_paper"
       and resp = "\<lparr>choices = [\<lparr>message = Some \<lparr>content = Some [32, 10]\<rparr>\<rparr>]\<rparr>"
       and ch = "\<lparr>message = Some \<lparr>content = Some [32, 10]\<rparr>\<rparr>" and chs = "[]"
       and msg = "\<lparr>content = Some [32, 10]\<rparr>" and c = "[32, 10]" and delay = 5]
    h1
  have a: "fst (call_llm_loop ?W extractor_test_bot extractor_role (extraction_task_prompt short_paper) 3 5 0 ?tr) =
     Inr (Some [])"
    by blast
  from whitespace_only_completion_counts_as_failure
    [where e = ?W and tr = trace_to_chatbots and eb = extractor_test_bot and sb = synthesizer_test_bot
       and paper_text = short_paper and r' = "Some []"
       and tr' = "trace_to_first_call @ [Log INFO LLMCallSuccessful]"]
    h3
  have b: "step3_extractor_bot ?W extractor_test_bot synthesizer_test_bot short_paper trace_to_chatbots =
     (None, (trace_to_first_call @ [Log INFO LLMCallSuccessful]) @ [Log ERROR ExtractorFailed])"
    by blast
  from p a b show ?thesis
    by (simp add: trace_to_first_call_def trace_to_chatbots_def short_paper_def)
qed

section \<open>The orchestrator\<close>

text \<open>
  C9. When the text is extracted, the chatbots are constructed, the extraction stage gives
  a non-empty output and the synthesis stage gives \<open>None\<close> or the empty string, the run
  prints the extraction stage's header and output, then does the synthesis stage's calls,
  and only then reports the synthesis failure: the printed output stays in the trace.
\<close>

theorem extraction_output_shown_before_synthesis_failure:
  assumes "extract_text_from_pdf e pdf_path
             [Log INFO (StartingDigestion pdf_path), Log INFO Step1Extracting] = (Some paper_text, tr1)"
    and "paper_text \<noteq> []"
    and "init_chatbots e (tr1 @ length_check paper_text) = (Inr (eb, sb), tr2)"
    and "execute_task e eb extractor_role (extraction_task_prompt paper_text)
           (tr2 @ [Log INFO Step2Extractor]) = (Inr (Some out), tr3)"
    and "out \<noteq> []"
    and "fst (execute_task e sb synthesizer_role (synthesis_task_prompt out paper_text)
           (tr3 @ [Print (py ''\<newline>--- Extractor Bot Output ---''), Print out,
                   Log INFO Step3Synthesizer])) = Inr r"
    and "\<not> truthy r"
  shows "\<exists>evs. run_digestion_pipeline e pdf_path =
            (None,
             tr3 @ [Print (py ''\<newline>--- Extractor Bot Output ---''), Print out,
                    Log INFO Step3Synthesizer] @ evs @
                   [Log ERROR SynthesizerFailed, Print (py ''\<newline>--- Final Digest: FAILED ---'')]) \<and>
          (\<forall>ev\<in>set evs.
             client_event (llm_request sb synthesizer_role (synthesis_task_prompt out paper_text)) ev)"
proof -
  let ?tr4 = "tr3 @ [Print (py ''\<newline>--- Extractor Bot Output ---''), Print out]"
  let ?task = "synthesis_task_prompt out paper_text"
  from execute_task_events [of e sb synthesizer_role ?task "?tr4 @ [Log INFO Step3Synthesizer]"]
  obtain evs where evs:
    "snd (execute_task e sb synthesizer_role ?task (?tr4 @ [Log INFO Step3Synthesizer])) =
       (?tr4 @ [Log INFO Step3Synthesizer]) @ evs"
    "\<forall>ev\<in>set evs. client_event (llm_request sb synthesizer_role ?task) ev"
    by blast
  from assms(6) evs(1)
  have s2: "execute_task e sb synthesizer_role ?task (?tr4 @ [Log INFO Step3Synthesizer]) =
              (Inr r, (?tr4 @ [Log INFO Step3Synthesizer]) @ evs)"
    by (simp add: prod_eq_iff)
  have "run_digestion_pipeline e pdf_path =
          (None, ((?tr4 @ [Log INFO Step3Synthesizer]) @ evs) @
                 [Log ERROR SynthesizerFailed, Print (py ''\<newline>--- Final Digest: FAILED ---'')])"
    unfolding pipeline_with_text [OF assms(1,2)] step2_succeeds [OF assms(3)]
      step3_succeeds [OF assms(4,5)]
    using s2 assms(7) by (rule step4_fails)
  with evs(2) show ?thesis by (intro exI [of _ evs]) simp
qed

theorem extraction_output_shown_before_synthesis_failure_witness:
  "run_digestion_pipeline
     (mock_env three_page_pdf (\<lambda>n. if n = 0 then completion (py ''Core Problem: X'') else completion []))
     (py ''paper.pdf'') =
   (None,
    trace_to_first_call @
    [Log INFO LLMCallSuccessful,
     Print (py ''\<newline>--- Extractor Bot Output ---''), Print (py ''Core Problem: X''),
     Log INFO Step3Synthesizer,
     Log INFO (ExecutingTask (take 100 synthesizer_role)), Log INFO (CallingLLM 1 3),
     ApiCall (llm_request synthesizer_test_bot synthesizer_role
                (synthesis_task_prompt (py ''Core Problem: X'') (py ''Problem X. Method Y. Result Z.''))),
     Log WARNING LLMEmptyMessage,
     Log ERROR SynthesizerFailed, Print (py ''\<newline>--- Final Digest: FAILED ---'')])"
proof -
  let ?W = "mock_env three_page_pdf (\<lambda>n. if n = 0 then completion (py ''Core Problem: X'') else completion [])"
  let ?T = "py ''Problem X. Method Y. Result Z.''"
  let ?tr1 = "[Log INFO (StartingDigestion (py ''paper.pdf'')), Log INFO Step1Extracting,
      Log INFO (OpeningPDF (py ''paper.pdf'')), Log INFO (ExtractingPages 3),
      Log INFO (ExtractedChars 30)]"
  let ?tr2 = "?tr1 @ length_check ?T @ [Log INFO (ChatbotInitialized LLM_MODEL), Log INFO (ChatbotInitialized LLM_MODEL)]"
  have h1: "extract_text_from_pdf ?W (py ''paper.pdf'')
     [Log INFO (StartingDigestion (py ''paper.pdf'')), Log INFO Step1Extracting] = (Some ?T, ?tr1)"
    by (rule run_to_first_call)
  have h2: "?T \<noteq> []" by (simp add: py_def)
  have h3: "init_chatbots ?W (?tr1 @ length_check ?T) = (Inr (extractor_test_bot, synthesizer_test_bot), ?tr2)"
    by (simp add: run_to_first_call(3))
  have h4: "execute_task ?W extractor_test_bot extractor_role (extraction_task_prompt ?T)
              (?tr2 @ [Log INFO Step2Extractor]) =
            (Inr (Some (py ''Core Problem: X'')), trace_to_first_call @ [Log INFO LLMCallSuccessful])"
    using first_call [of "\<lambda>n. if n = 0 then completion (py ''Core Problem: X'') else completion []" "py ''Core Problem: X''"]
    by (simp add: run_to_first_call(2) strip_replies) (simp add: py_def)
  have h5: "py ''Core Problem: X'' \<noteq> []" by (simp add: py_def)
  have h6: "fst (execute_task ?W synthesizer_test_bot synthesizer_role
              (synthesis_task_prompt (py ''Core Problem: X'') ?T)
              ((trace_to_first_call @ [Log INFO LLMCallSuccessful]) @
               [Print (py ''\<newline>--- Extractor Bot Output ---''), Print (py ''Core Problem: X''),
                Log INFO Step3Synthesizer])) = Inr None"
    using second_call [of "\<lambda>n. if n = 0 then completion (py ''Core Problem: X'') else completion []" "[]"]
    by simp
  have h7: "\<not> truthy None" by simp
  from extraction_output_shown_before_synthesis_failure [OF h1 h2 h3 h4 h5 h6 h7]
  obtain evs where "run_digestion_pipeline ?W (py ''paper.pdf'') =
            (None,
             (trace_to_first_call @ [Log INFO LLMCallSuccessful]) @
             [Print (py ''\<newline>--- Extractor Bot Output ---''), Print (py ''Core Problem: X''),
                    Log INFO Step3Synthesizer] @ evs @
                   [Log ERROR SynthesizerFailed, Print (py ''\<newline>--- Final Digest: FAILED ---'')])"
    by blast
  moreover have "run_digestion_pipeline ?W (py ''paper.pdf'') =
     step4_synthesizer_bot ?W synthesizer_test_bot ?T (py ''Core Problem: X'')
       ((trace_to_first_call @ [Log INFO LLMCallSuccessful]) @
        [Print (py ''\<newline>--- Extractor Bot Output ---''), Print (py ''Core Problem: X'')])"
    unfolding pipeline_with_text [OF h1 h2] step2_succeeds [OF h3] step3_succeeds [OF h4 h5] ..
  ultimately show ?thesis
    using second_call [of "\<lambda>n. if n = 0 then completion (py ''Core Problem: X'') else completion []" "[]"
        "synthesis_task_prompt (py ''Core Problem: X'') ?T" "py ''\<newline>--- Extractor Bot Output ---''" "py ''Core Problem: X''"]
    by (simp add: step4_synthesizer_bot_def)
qed

text \<open>
  C2. The run reports a failed extraction exactly when the extracted text is \<open>None\<close> or
  empty. For a text of 1 to 499 characters the length check logs the length and one
  warning, and the run goes on with step 2 as for any other text: once the chatbots are
  constructed the extraction stage calls the API, and when that stage gives a non-empty
  output the synthesis stage calls it too.
\<close>

theorem short_text_is_only_a_warning:
  "(Log ERROR FailedToExtract \<in> set (snd (run_digestion_pipeline e pdf_path)) \<longleftrightarrow>
      \<not> truthy (fst (extract_text_from_pdf e pdf_path
                        [Log INFO (StartingDigestion pdf_path), Log INFO Step1Extracting]))) \<and>
   (extract_text_from_pdf e pdf_path
      [Log INFO (StartingDigestion pdf_path), Log INFO Step1Extracting] = (Some paper_text, tr) \<and>
    0 < length paper_text \<and> length paper_text < 500 \<longrightarrow>
      length_check paper_text =
        [Log INFO (TextExtracted (length paper_text)),
         Log WARNING (TextIsVeryShort (length paper_text))] \<and>
      run_digestion_pipeline e pdf_path =
        step2_initialize_chatbots e paper_text (tr @ length_check paper_text) \<and>
      (init_chatbots e (tr @ length_check paper_text) = (Inr (eb, sb), tr') \<longrightarrow>
         ApiCall (llm_request eb extractor_role (extraction_task_prompt paper_text))
           \<in> set (snd (run_digestion_pipeline e pdf_path)) \<and>
         (execute_task e eb extractor_role (extraction_task_prompt paper_text)
            (tr' @ [Log INFO Step2Extractor]) = (Inr (Some out), tr'') \<and> out \<noteq> [] \<longrightarrow>
            ApiCall (llm_request sb synthesizer_role (synthesis_task_prompt out paper_text))
              \<in> set (snd (run_digestion_pipeline e pdf_path)))))"
proof (intro conjI impI)
  show "Log ERROR FailedToExtract \<in> set (snd (run_digestion_pipeline e pdf_path)) \<longleftrightarrow>
      \<not> truthy (fst (extract_text_from_pdf e pdf_path
                        [Log INFO (StartingDigestion pdf_path), Log INFO Step1Extracting]))"
    by (rule failed_to_extract_iff)
next
  assume a: "extract_text_from_pdf e pdf_path
      [Log INFO (StartingDigestion pdf_path), Log INFO Step1Extracting] = (Some paper_text, tr) \<and>
    0 < length paper_text \<and> length paper_text < 500"
  then have x: "extract_text_from_pdf e pdf_path
      [Log INFO (StartingDigestion pdf_path), Log INFO Step1Extracting] = (Some paper_text, tr)"
    and ne: "paper_text \<noteq> []" and short: "length paper_text < 500"
    by auto
  from short show "length_check paper_text =
        [Log INFO (TextExtracted (length paper_text)),
         Log WARNING (TextIsVeryShort (length paper_text))]"
    by (simp add: length_check_def MAX_TEXT_LENGTH_WARN_def Let_def)
  show "run_digestion_pipeline e pdf_path =
        step2_initialize_chatbots e paper_text (tr @ length_check paper_text)"
    using x ne by (rule pipeline_with_text)
  assume i: "init_chatbots e (tr @ length_check paper_text) = (Inr (eb, sb), tr')"
  show "ApiCall (llm_request eb extractor_role (extraction_task_prompt paper_text))
           \<in> set (snd (run_digestion_pipeline e pdf_path))"
    using x ne i by (rule first_stage_called)
  assume "execute_task e eb extractor_role (extraction_task_prompt paper_text)
            (tr' @ [Log INFO Step2Extractor]) = (Inr (Some out), tr'') \<and> out \<noteq> []"
  then show "ApiCall (llm_request sb synthesizer_role (synthesis_task_prompt out paper_text))
              \<in> set (snd (run_digestion_pipeline e pdf_path))"
    using second_stage_called [OF x ne i] by blast
qed

theorem short_text_is_only_a_warning_witness:
  "Log ERROR FailedToExtract \<notin> set (snd (run_digestion_pipeline
      (mock_env three_page_pdf (\<lambda>n. if n = 0 then completion extraction_reply else completion synthesis_reply))
      (py ''paper.pdf''))) \<and>
   length_check short_paper = [Log INFO (TextExtracted 30), Log WARNING (TextIsVeryShort 30)] \<and>
   ApiCall (llm_request extractor_test_bot extractor_role (extraction_task_prompt short_paper))
     \<in> set (snd (run_digestion_pipeline
      (mock_env three_page_pdf (\<lambda>n. if n = 0 then completion extraction_reply else completion synthesis_reply))
      (py ''paper.pdf''))) \<and>
   ApiCall (llm_request synthesizer_test_bot synthesizer_role (synthesis_task_prompt extraction_reply short_paper))
     \<in> set (snd (run_digestion_pipeline
      (mock_env three_page_pdf (\<lambda>n. if n = 0 then completion extraction_reply else completion synthesis_reply))
      (py ''paper.pdf'')))"
proof -
  let ?W = "mock_env three_page_pdf (\<lambda>n. if n = 0 then completion extraction_reply else completion synthesis_reply)"
  let ?tr1 = "[Log INFO (StartingDigestion (py ''paper.pdf'')), Log INFO Step1Extracting,
      Log INFO (OpeningPDF (py ''paper.pdf'')), Log INFO (ExtractingPages 3),
      Log INFO (ExtractedChars 30)]"
  have h1: "extract_text_from_pdf ?W (py ''paper.pdf'')
     [Log INFO (StartingDigestion (py ''paper.pdf'')), Log INFO Step1Extracting] = (Some short_paper, ?tr1) \<and>
     0 < length short_paper \<and> length short_paper < 500"
    by (simp add: run_to_first_call(1) short_paper_def) (simp add: py_def)
  have h2: "init_chatbots ?W (?tr1 @ length_check short_paper) =
     (Inr (extractor_test_bot, synthesizer_test_bot), trace_to_chatbots)"
    by (simp add: run_to_first_call short_paper_def trace_to_chatbots_def)
  have h3: "execute_task ?W extractor_test_bot extractor_role (extraction_task_prompt short_paper)
      (trace_to_chatbots @ [Log INFO Step2Extractor]) =
      (Inr (Some extraction_reply), trace_to_first_call @ [Log INFO LLMCallSuccessful]) \<and> extraction_reply \<noteq> []"
    using first_call [of "\<lambda>n. if n = 0 then completion extraction_reply else completion synthesis_reply" extraction_reply]
    by (simp add: short_paper_def trace_to_chatbots_def extraction_reply_def strip_replies) (simp add: py_def)
  have h4: "truthy (fst (extract_text_from_pdf ?W (py ''paper.pdf'')
     [Log INFO (StartingDigestion (py ''paper.pdf'')), Log INFO Step1Extracting]))"
    using h1 by auto
  have n: "length short_paper = 30" by (simp add: short_paper_def py_def)
  from short_text_is_only_a_warning
    [where e = ?W and pdf_path = "py ''paper.pdf''" and paper_text = short_paper and tr = ?tr1
       and eb = extractor_test_bot and sb = synthesizer_test_bot and tr' = trace_to_chatbots
       and out = extraction_reply and tr'' = "trace_to_first_call @ [Log INFO LLMCallSuccessful]"]
    h1 h2 h3 h4
  show ?thesis unfolding n by blast
qed

text \<open>
  C1. The claim: the user prompt sent in both stages contains the full document text, put
  in place of the placeholder by \<open>.replace\<close>. The code: both prompts are f-strings, so
  the slice of the first 8000 characters is applied when they are built and no placeholder
  is left for \<open>.replace\<close> to find. The run on the one-page document of 8001 characters
  makes two API calls, and the user prompt of neither contains the document text: both
  stop after the 8000th character.
\<close>

theorem long_document_is_sent_truncated:
  "without_logs (snd (run_digestion_pipeline long_pdf_env (py ''long.pdf''))) =
     [ApiCall truncated_extraction_request,
      Print (py ''\<newline>--- Extractor Bot Output ---''), Print extraction_reply,
      ApiCall truncated_synthesis_request,
      Print (py ''\<newline>--- Final Synthesized Digest ---''), Print synthesis_reply] \<and>
   \<not> sublist long_paper (user_content truncated_extraction_request) \<and>
   \<not> sublist long_paper (user_content truncated_synthesis_request)"
proof -
  have "90 \<notin> set (user_content truncated_extraction_request)"
    using no_Z by (simp add: truncated_extraction_request_def llm_request_def)
  with no_Z(7) have a: "\<not> sublist long_paper (user_content truncated_extraction_request)"
    by (rule not_sublist_char)
  have "90 \<notin> set (user_content truncated_synthesis_request)"
    using no_Z by (simp add: truncated_synthesis_request_def llm_request_def)
  with no_Z(7) have b: "\<not> sublist long_paper (user_content truncated_synthesis_request)"
    by (rule not_sublist_char)
  from a b show ?thesis by (simp add: long_run)
qed

end
